theory Spec2Isabelle
  imports Complex_Main
begin

section \<open>Python values\<close>

text \<open>
  A Python \<open>str\<close> is a sequence of Unicode code points, so \<open>len\<close> and slicing count
  code points. It is modelled as a list of natural numbers; \<open>ustr\<close> turns an ASCII
  literal of the source into that representation. Bytes are natural numbers below 256.
\<close>

type_synonym pystr = "nat list"
type_synonym bytes = "nat list"

definition ustr :: "string \<Rightarrow> pystr" where
  "ustr s = map of_char s"

text \<open>
  The value \<open>json.loads\<close> returns: \<open>None\<close>, a bool, an int, a float, a str, a list or a
  dict. A dict is an association list whose keys are distinct (the decoder has already
  resolved duplicate keys), looked up with \<open>map_of\<close>. A float is the rational number it
  stands for; \<open>NaN\<close> and the infinities, which the program could only tell from other
  floats by their text, are left out.
\<close>

datatype json =
    JNull
  | JBool bool
  | JInt int
  | JFloat rat
  | JStr pystr
  | JArr "json list"
  | JObj "(pystr \<times> json) list"

text \<open>Python truthiness, as \<open>if x:\<close> and \<open>not x\<close> evaluate it.\<close>

fun truthy :: "json \<Rightarrow> bool" where
  "truthy JNull = False"
| "truthy (JBool b) = b"
| "truthy (JInt i) = (i \<noteq> 0)"
| "truthy (JFloat r) = (r \<noteq> 0)"
| "truthy (JStr s) = (s \<noteq> [])"
| "truthy (JArr xs) = (xs \<noteq> [])"
| "truthy (JObj kvs) = (kvs \<noteq> [])"

text \<open>The name \<open>type(x).__name__\<close>, as it appears in the message of an AttributeError.\<close>

fun type_name :: "json \<Rightarrow> pystr" where
  "type_name JNull = ustr ''NoneType''"
| "type_name (JBool b) = ustr ''bool''"
| "type_name (JInt i) = ustr ''int''"
| "type_name (JFloat r) = ustr ''float''"
| "type_name (JStr s) = ustr ''str''"
| "type_name (JArr xs) = ustr ''list''"
| "type_name (JObj kvs) = ustr ''dict''"

section \<open>Strings: split, UTF-8, percent-encoding\<close>

text \<open>\<open>s.split(sep)\<close> for a one-character separator: never the empty list.\<close>

fun split_on :: "nat \<Rightarrow> pystr \<Rightarrow> pystr list" where
  "split_on sep [] = [[]]"
| "split_on sep (c # cs) =
     (if c = sep then [] # split_on sep cs
      else (case split_on sep cs of
              [] \<Rightarrow> [[c]]
            | p # ps \<Rightarrow> (c # p) # ps))"

text \<open>
  \<open>str.encode('utf-8', errors='strict')\<close>: a surrogate code point raises
  UnicodeEncodeError (\<open>None\<close>). Code points from \<open>0x110000\<close> on do not exist.
\<close>

definition utf8_char :: "nat \<Rightarrow> bytes option" where
  "utf8_char c =
     (if c < 128 then Some [c]
      else if c < 2048 then Some [192 + c div 64, 128 + c mod 64]
      else if c < 65536 then
        (if 55296 \<le> c \<and> c \<le> 57343 then None
         else Some [224 + c div 4096, 128 + (c div 64) mod 64, 128 + c mod 64])
      else if c < 1114112 then
        Some [240 + c div 262144, 128 + (c div 4096) mod 64,
              128 + (c div 64) mod 64, 128 + c mod 64]
      else None)"

fun utf8_encode :: "pystr \<Rightarrow> bytes option" where
  "utf8_encode [] = Some []"
| "utf8_encode (c # cs) =
     (case utf8_char c of
        None \<Rightarrow> None
      | Some bs \<Rightarrow> (case utf8_encode cs of None \<Rightarrow> None | Some rest \<Rightarrow> Some (bs @ rest)))"

text \<open>
  \<open>requests.utils.quote\<close> is \<open>urllib.parse.quote\<close>. With \<open>safe=''\<close> the bytes kept
  as they are, are the letters, the digits and \<open>_ . - ~\<close>; every other byte becomes
  \<open>%XX\<close> with two upper-case hexadecimal digits.
\<close>

definition always_safe :: "nat \<Rightarrow> bool" where
  "always_safe b \<longleftrightarrow>
     (65 \<le> b \<and> b \<le> 90) \<or> (97 \<le> b \<and> b \<le> 122) \<or> (48 \<le> b \<and> b \<le> 57)
     \<or> b = 95 \<or> b = 46 \<or> b = 45 \<or> b = 126"

definition hex_digit :: "nat \<Rightarrow> nat" where
  "hex_digit d = (if d < 10 then 48 + d else 55 + d)"

definition quote_byte :: "nat \<Rightarrow> pystr" where
  "quote_byte b = (if always_safe b then [b] else [37, hex_digit (b div 16), hex_digit (b mod 16)])"

definition quote_from_bytes :: "bytes \<Rightarrow> pystr" where
  "quote_from_bytes bs = concat (map quote_byte bs)"

text \<open>\<open>quote(s, safe='')\<close> on a str; \<open>None\<close> is the UnicodeEncodeError.\<close>

definition quote :: "pystr \<Rightarrow> pystr option" where
  "quote s = map_option quote_from_bytes (utf8_encode s)"

section \<open>Post URLs\<close>

text \<open>
  \<open>get_linkedin_post_url\<close>: \<open>None\<close> for a falsy identifier; the bare \<open>except\<close> turns
  the TypeError of \<open>quote\<close> on a value that is not a str, and the UnicodeEncodeError,
  into \<open>None\<close> too.
\<close>

definition feed_update_prefix :: pystr where
  "feed_update_prefix = ustr ''https://www.linkedin.com/feed/update/''"

definition get_linkedin_post_url :: "json \<Rightarrow> pystr option" where
  "get_linkedin_post_url post_urn =
     (if \<not> truthy post_urn then None
      else (case post_urn of
              JStr s \<Rightarrow> (case quote s of
                           None \<Rightarrow> None
                         | Some encoded_urn \<Rightarrow> Some (feed_update_prefix @ encoded_urn))
            | _ \<Rightarrow> None))"

text \<open>
  \<open>get_linkedin_activity_url\<close>: \<open>post_urn.split(':')[-1]\<close> raises AttributeError on a
  value that is not a str, which the bare \<open>except\<close> turns into \<open>None\<close>.
\<close>

definition activity_prefix :: pystr where
  "activity_prefix = ustr ''https://www.linkedin.com/feed/update/urn:li:activity:''"

definition get_linkedin_activity_url :: "json \<Rightarrow> pystr option" where
  "get_linkedin_activity_url post_urn =
     (if \<not> truthy post_urn then None
      else (case post_urn of
              JStr s \<Rightarrow> Some (activity_prefix @ last (split_on 58 s))
            | _ \<Rightarrow> None))"

subsection \<open>Percent-decoding, as the specification's round trip reads the URL back\<close>

definition hex_val :: "nat \<Rightarrow> nat option" where
  "hex_val c =
     (if 48 \<le> c \<and> c \<le> 57 then Some (c - 48)
      else if 65 \<le> c \<and> c \<le> 70 then Some (c - 55)
      else if 97 \<le> c \<and> c \<le> 102 then Some (c - 87)
      else None)"

fun percent_decode :: "pystr \<Rightarrow> bytes" where
  "percent_decode (p # a # b # rest) =
     (if p = 37 then
        (case (hex_val a, hex_val b) of
           (Some x, Some y) \<Rightarrow> (16 * x + y) # percent_decode rest
         | _ \<Rightarrow> p # percent_decode (a # b # rest))
      else p # percent_decode (a # b # rest))"
| "percent_decode (p # rest) = p # percent_decode rest"
| "percent_decode [] = []"

text \<open>Strict UTF-8 decoding of a byte sequence; \<open>None\<close> where it is malformed.\<close>

definition is_cont :: "nat \<Rightarrow> bool" where
  "is_cont b \<longleftrightarrow> 128 \<le> b \<and> b < 192"

fun utf8_decode :: "bytes \<Rightarrow> pystr option" where
  "utf8_decode [] = Some []"
| "utf8_decode (b0 # bs) =
     (if b0 < 128 then map_option ((#) b0) (utf8_decode bs)
      else if 192 \<le> b0 \<and> b0 < 224 then
        (case bs of
           b1 # r \<Rightarrow>
             (if is_cont b1
              then map_option ((#) ((b0 - 192) * 64 + (b1 - 128))) (utf8_decode r)
              else None)
         | _ \<Rightarrow> None)
      else if 224 \<le> b0 \<and> b0 < 240 then
        (case bs of
           b1 # b2 # r \<Rightarrow>
             (if is_cont b1 \<and> is_cont b2
              then map_option ((#) ((b0 - 224) * 4096 + (b1 - 128) * 64 + (b2 - 128)))
                     (utf8_decode r)
              else None)
         | _ \<Rightarrow> None)
      else if 240 \<le> b0 \<and> b0 < 248 then
        (case bs of
           b1 # b2 # b3 # r \<Rightarrow>
             (if is_cont b1 \<and> is_cont b2 \<and> is_cont b3
              then map_option
                     ((#) ((b0 - 240) * 262144 + (b1 - 128) * 4096 + (b2 - 128) * 64 + (b3 - 128)))
                     (utf8_decode r)
              else None)
         | _ \<Rightarrow> None)
      else None)"

section \<open>The world the program runs in\<close>

text \<open>
  Everything outside the program is the environment: the servers behind the HTTP calls,
  the wall clock and the interpreter's formatting of values. An HTTP call either raises
  (\<open>requests.exceptions.Timeout\<close> or another exception, with its text) or returns a
  response: its status code, its text and what \<open>response.json()\<close> gives (\<open>Inl\<close> the
  text of the decoding error).
\<close>

datatype exc_kind = Timeout | Other_exception

datatype http_result =
    Raises exc_kind pystr
  | Response nat pystr "pystr + json"

text \<open>
  The requests the program sends. The arguments are what the source puts into the call.
  \<^item> \<open>Get_userinfo token timeout\<close>: GET \<open>https://api.linkedin.com/v2/userinfo\<close>
  \<^item> \<open>Get_me token\<close>: GET \<open>https://api.linkedin.com/v2/me\<close>
  \<^item> \<open>Register_upload token recipe owner fileSize timeout\<close>:
    POST \<open>https://api.linkedin.com/v2/assets?action=registerUpload\<close>
  \<^item> \<open>Put_upload url data token timeout\<close>: PUT to the upload URL, not through the session
  \<^item> \<open>Create_post token author text category media timeout\<close>:
    POST \<open>https://api.linkedin.com/v2/ugcPosts\<close>
  \<^item> \<open>Get_asset token asset_id\<close>: GET \<open>https://api.linkedin.com/v2/assets/{asset_id}\<close>
  \<^item> \<open>Delete_post token url\<close>: DELETE on the URL
\<close>

datatype request =
    Get_userinfo pystr nat
  | Get_me pystr
  | Register_upload pystr pystr pystr "nat option" nat
  | Put_upload json bytes pystr nat
  | Create_post pystr pystr pystr pystr "json option" nat
  | Get_asset pystr pystr
  | Delete_post pystr pystr

text \<open>
  What the program does to the outside is kept in a trace, in the order it happens:
  the HTTP calls with their results, the calls of \<open>time.sleep\<close> (in seconds), and the
  messages shown (on the status placeholder of a publish, or on the page). A message is
  the ASCII text of the source's literal, without its emoji, and the values it
  interpolates.
\<close>

datatype level = Info | Success | Warning | Error

datatype ui_arg = Num rat | Txt pystr

datatype event =
    Http request http_result
  | Slept nat
  | Placeholder_new
  | Placeholder level string "ui_arg list"
  | Placeholder_empty
  | St level string "ui_arg list"

text \<open>
  The environment answers a request knowing everything that happened before it, so a
  server may answer the same request differently each time. \<open>latency\<close> is the time the
  call takes, in milliseconds; \<open>strftime\<close> formats the clock as
  \<open>time.strftime('%Y-%m-%d %H:%M')\<close> does; \<open>py_str\<close> is \<open>str()\<close> on a value that is not
  a str; \<open>exc_text\<close> is the text of the exception the interpreter raises on a value.
\<close>

record env =
  respond :: "event list \<Rightarrow> request \<Rightarrow> http_result"
  latency :: "event list \<Rightarrow> request \<Rightarrow> nat"
  strftime :: "nat \<Rightarrow> pystr"
  py_str :: "json \<Rightarrow> pystr"
  exc_text :: "json \<Rightarrow> pystr"

text \<open>An entry of \<open>st.session_state.post_history\<close>.\<close>

record post_record =
  rec_urn :: json
  rec_url :: "pystr option"
  rec_text :: pystr
  rec_type :: pystr
  rec_time :: pystr

text \<open>An uploaded file: its name and its content.\<close>

record uploaded_file =
  file_name :: pystr
  file_data :: bytes

text \<open>
  The state: the trace, the clock (milliseconds) and the fields of
  \<open>st.session_state\<close> the modelled functions read or write.
\<close>

record world =
  trace :: "event list"
  now :: nat
  post_history :: "post_record list"
  last_post_urn :: "json option"
  last_post_url :: "pystr option"
  session_uploaded_media :: "uploaded_file option"
  session_media_type :: "pystr option"
  linkedin_token :: pystr
  generated_post :: pystr
  post_ready :: bool
  show_success :: bool

definition emit :: "event \<Rightarrow> world \<Rightarrow> world" where
  "emit e w = w\<lparr>trace := trace w @ [e]\<rparr>"

definition http :: "env \<Rightarrow> request \<Rightarrow> world \<Rightarrow> http_result \<times> world" where
  "http env req w =
     (let r = respond env (trace w) req
      in (r, w\<lparr>trace := trace w @ [Http req r], now := now w + latency env (trace w) req\<rparr>))"

text \<open>\<open>time.sleep(s)\<close>\<close>

definition sleep :: "nat \<Rightarrow> world \<Rightarrow> world" where
  "sleep s w = w\<lparr>trace := trace w @ [Slept s], now := now w + 1000 * s\<rparr>"

section \<open>Python helpers\<close>

text \<open>\<open>str(n)\<close> for a number that is not negative.\<close>

fun str_nat :: "nat \<Rightarrow> pystr" where
  "str_nat n = (if n < 10 then [48 + n] else str_nat (n div 10) @ [48 + n mod 10])"

declare str_nat.simps [simp del]

text \<open>\<open>d.get(k, default)\<close>: an AttributeError (\<open>Inl\<close>, with its text) unless \<open>d\<close> is a dict.\<close>

definition py_get :: "json \<Rightarrow> pystr \<Rightarrow> json \<Rightarrow> pystr + json" where
  "py_get d k dflt =
     (case d of
        JObj kvs \<Rightarrow> Inr (case map_of kvs k of Some v \<Rightarrow> v | None \<Rightarrow> dflt)
      | _ \<Rightarrow> Inl ([39] @ type_name d @ [39] @ ustr '' object has no attribute ''
                  @ [39] @ ustr ''get'' @ [39]))"

text \<open>
  \<open>d[k]\<close> with a str key: a KeyError on a dict without the key, a TypeError on any other
  value (\<open>None\<close> for both).
\<close>

definition py_index :: "json \<Rightarrow> pystr \<Rightarrow> json option" where
  "py_index d k = (case d of JObj kvs \<Rightarrow> map_of kvs k | _ \<Rightarrow> None)"

text \<open>\<open>sub in s\<close> on strs.\<close>

fun py_in :: "pystr \<Rightarrow> pystr \<Rightarrow> bool" where
  "py_in sub [] = (sub = [])"
| "py_in sub (c # cs) = (take (length sub) (c # cs) = sub \<or> py_in sub cs)"

text \<open>
  \<open>s.lower()\<close>, on the ASCII letters. Python lowers other letters too, but the only
  ones whose lower case holds an ASCII letter are U+0130 (\<open>i\<close> followed by U+0307) and
  U+212A (\<open>k\<close>), and neither can complete \<open>rate\<close> or \<open>limit\<close>: the two tests made on
  the result come out the same.
\<close>

definition lower :: "pystr \<Rightarrow> pystr" where
  "lower s = map (\<lambda>c. if 65 \<le> c \<and> c \<le> 90 then c + 32 else c) s"



text \<open>An f-string's \<open>{v}\<close>: a str as it is, any other value through \<open>str()\<close>.\<close>

definition fmt :: "env \<Rightarrow> json \<Rightarrow> pystr" where
  "fmt env v = (case v of JStr s \<Rightarrow> s | _ \<Rightarrow> py_str env v)"

section \<open>Connection and profile\<close>

definition check_linkedin_connection :: "env \<Rightarrow> pystr \<Rightarrow> world \<Rightarrow> bool \<times> world" where
  "check_linkedin_connection env access_token w =
     (if access_token = [] then (False, w)
      else (case http env (Get_userinfo access_token 5) w of
              (Response code txt js, w') \<Rightarrow> (code = 200, w')
            | (Raises k e, w') \<Rightarrow> (False, w')))"

text \<open>
  One attempt of \<open>get_user_profile\<close>: the truthy value under \<open>key\<close> in a 200 response;
  a response that is not JSON, or not a dict, raises inside the \<open>try\<close> and is passed over.
\<close>

definition profile_id :: "http_result \<Rightarrow> pystr \<Rightarrow> json option" where
  "profile_id r key =
     (case r of
        Response code txt js \<Rightarrow>
          (if code = 200 then
             (case js of
                Inr data \<Rightarrow>
                  (case py_get data key JNull of
                     Inr user_id \<Rightarrow> (if truthy user_id then Some user_id else None)
                   | Inl e \<Rightarrow> None)
              | Inl e \<Rightarrow> None)
           else None)
      | Raises k e \<Rightarrow> None)"

definition get_user_profile :: "env \<Rightarrow> pystr \<Rightarrow> world \<Rightarrow> pystr option \<times> world" where
  "get_user_profile env access_token w =
     (if access_token = [] then (None, w)
      else
        (let (r1, w1) = http env (Get_userinfo access_token 10) w
         in case profile_id r1 (ustr ''sub'') of
              Some user_id \<Rightarrow> (Some (ustr ''urn:li:person:'' @ fmt env user_id), w1)
            | None \<Rightarrow>
                (let (r2, w2) = http env (Get_me access_token) w1
                 in case profile_id r2 (ustr ''id'') of
                      Some user_id \<Rightarrow> (Some (ustr ''urn:li:person:'' @ fmt env user_id), w2)
                    | None \<Rightarrow> (None, w2))))"

section \<open>Upload registration and byte transfer\<close>

text \<open>
  \<open>data['value']['uploadMechanism'][...]['uploadUrl']\<close> and \<open>data['value']['asset']\<close>;
  \<open>None\<close> where one of the subscripts raises.
\<close>

definition registered :: "json \<Rightarrow> (json \<times> json) option" where
  "registered data =
     (case py_index data (ustr ''value'') of
        None \<Rightarrow> None
      | Some v \<Rightarrow>
          (case py_index v (ustr ''uploadMechanism'') of
             None \<Rightarrow> None
           | Some m \<Rightarrow>
               (case py_index m (ustr ''com.linkedin.digitalmedia.uploading.MediaUploadHttpRequest'') of
                  None \<Rightarrow> None
                | Some h \<Rightarrow>
                    (case py_index h (ustr ''uploadUrl'') of
                       None \<Rightarrow> None
                     | Some upload_url \<Rightarrow>
                         (case py_index v (ustr ''asset'') of
                            None \<Rightarrow> None
                          | Some asset \<Rightarrow> Some (upload_url, asset))))))"

text \<open>The pair \<open>(None, None)\<close> is \<open>(JNull, JNull)\<close>.\<close>

definition register_image_upload :: "env \<Rightarrow> pystr \<Rightarrow> pystr \<Rightarrow> world \<Rightarrow> (json \<times> json) \<times> world" where
  "register_image_upload env access_token user_urn w =
     (case http env (Register_upload access_token
                       (ustr ''urn:li:digitalmediaRecipe:feedshare-image'') user_urn None 15) w of
        (Response code txt js, w') \<Rightarrow>
          (if code = 200 \<or> code = 201 then
             (case js of
                Inr data \<Rightarrow>
                  (case registered data of
                     Some ua \<Rightarrow> (ua, w')
                   | None \<Rightarrow> ((JNull, JNull), w'))
              | Inl e \<Rightarrow> ((JNull, JNull), w'))
           else ((JNull, JNull), w'))
      | (Raises k e, w') \<Rightarrow> ((JNull, JNull), w'))"

definition upload_image_to_linkedin :: "env \<Rightarrow> json \<Rightarrow> bytes \<Rightarrow> pystr \<Rightarrow> world \<Rightarrow> bool \<times> world" where
  "upload_image_to_linkedin env upload_url image_data access_token w =
     (case http env (Put_upload upload_url image_data access_token 60) w of
        (Response code txt js, w') \<Rightarrow> (code = 200 \<or> code = 201, w')
      | (Raises k e, w') \<Rightarrow> (False, w'))"

definition register_video_upload ::
  "env \<Rightarrow> pystr \<Rightarrow> pystr \<Rightarrow> nat \<Rightarrow> world \<Rightarrow> (json \<times> json) \<times> world" where
  "register_video_upload env access_token user_urn file_size w =
     (case http env (Register_upload access_token
                       (ustr ''urn:li:digitalmediaRecipe:feedshare-video'') user_urn
                       (Some file_size) 30) w of
        (Response code txt js, w') \<Rightarrow>
          (if code = 200 \<or> code = 201 then
             (case js of
                Inr data \<Rightarrow>
                  (case registered data of
                     Some ua \<Rightarrow> (ua, w')
                   | None \<Rightarrow>
                       ((JNull, JNull),
                        emit (St Error ''Video register error: {str(e)}'' [Txt (exc_text env data)]) w'))
              | Inl e \<Rightarrow>
                  ((JNull, JNull), emit (St Error ''Video register error: {str(e)}'' [Txt e]) w'))
           else
             ((JNull, JNull),
              emit (St Error ''Video register failed: {response.status_code}'' [Num (of_nat code)]) w'))
      | (Raises k e, w') \<Rightarrow>
          ((JNull, JNull), emit (St Error ''Video register error: {str(e)}'' [Txt e]) w'))"

definition upload_video_to_linkedin ::
  "env \<Rightarrow> json \<Rightarrow> bytes \<Rightarrow> pystr \<Rightarrow> rat \<Rightarrow> world \<Rightarrow> bool \<times> world" where
  "upload_video_to_linkedin env upload_url video_data access_token file_size_mb w =
     (let timeout_seconds = max 300 (nat \<lfloor>file_size_mb * 5\<rfloor>)
      in case http env (Put_upload upload_url video_data access_token timeout_seconds) w of
           (Response code txt js, w') \<Rightarrow>
             (if code = 200 \<or> code = 201 then (True, w')
              else (False,
                    emit (St Error ''Video upload failed: {response.status_code}''
                            [Num (of_nat code)]) w'))
         | (Raises Timeout e, w') \<Rightarrow>
             (False,
              emit (St Error ''Video upload timeout - try smaller file or better connection'' []) w')
         | (Raises Other_exception e, w') \<Rightarrow>
             (False, emit (St Error ''Video upload error: {str(e)}'' [Txt e]) w'))"

section \<open>Creating the post\<close>

text \<open>What a publish returns beside its flag: the decoded response, or a reason.\<close>

datatype payload = Body json | Reason pystr

text \<open>\<open>text[:100] + '...' if len(text) > 100 else text\<close>\<close>

definition preview :: "pystr \<Rightarrow> pystr" where
  "preview text = (if length text > 100 then take 100 text @ ustr ''...'' else text)"

text \<open>The block under \<open>if post_urn:\<close>, the same in the three functions but for the kind.\<close>

definition record_post :: "env \<Rightarrow> json \<Rightarrow> pystr \<Rightarrow> pystr \<Rightarrow> world \<Rightarrow> world" where
  "record_post env post_urn text kind w =
     (let post_url = get_linkedin_post_url post_urn
      in if truthy post_urn then
           w\<lparr>post_history := post_history w @
                [\<lparr>rec_urn = post_urn, rec_url = post_url, rec_text = preview text,
                  rec_type = kind, rec_time = strftime env (now w)\<rparr>],
             last_post_urn := Some post_urn,
             last_post_url := post_url\<rparr>
         else w)"

text \<open>
  The body the three functions share: the POST, the status test, \<open>response.json()\<close>,
  \<open>result.get('id', '')\<close> and the history entry. \<open>except Exception as e\<close> returns
  \<open>str(e)\<close>: of the transport, of the JSON decoder, or of the AttributeError of \<open>get\<close>.
\<close>

definition create_post :: "env \<Rightarrow> request \<Rightarrow> pystr \<Rightarrow> pystr \<Rightarrow> world \<Rightarrow> (bool \<times> payload) \<times> world" where
  "create_post env req text kind w =
     (case http env req w of
        (Response code txt js, w') \<Rightarrow>
          (if code = 200 \<or> code = 201 then
             (case js of
                Inr result \<Rightarrow>
                  (case py_get result (ustr ''id'') (JStr []) of
                     Inr post_urn \<Rightarrow> ((True, Body result), record_post env post_urn text kind w')
                   | Inl e \<Rightarrow> ((False, Reason e), w'))
              | Inl e \<Rightarrow> ((False, Reason e), w'))
           else ((False, Reason (ustr ''Failed: '' @ str_nat code @ ustr '' - '' @ txt)), w'))
      | (Raises k e, w') \<Rightarrow> ((False, Reason e), w'))"

definition create_post_with_image ::
  "env \<Rightarrow> pystr \<Rightarrow> pystr \<Rightarrow> pystr \<Rightarrow> json \<Rightarrow> world \<Rightarrow> (bool \<times> payload) \<times> world" where
  "create_post_with_image env access_token user_urn text asset_urn w =
     create_post env (Create_post access_token user_urn text (ustr ''IMAGE'') (Some asset_urn) 30)
       text (ustr ''image'') w"

definition create_post_with_video ::
  "env \<Rightarrow> pystr \<Rightarrow> pystr \<Rightarrow> pystr \<Rightarrow> json \<Rightarrow> world \<Rightarrow> (bool \<times> payload) \<times> world" where
  "create_post_with_video env access_token user_urn text asset_urn w =
     create_post env (Create_post access_token user_urn text (ustr ''VIDEO'') (Some asset_urn) 60)
       text (ustr ''video'') w"

definition create_text_only_post ::
  "env \<Rightarrow> pystr \<Rightarrow> pystr \<Rightarrow> pystr \<Rightarrow> world \<Rightarrow> (bool \<times> payload) \<times> world" where
  "create_text_only_post env access_token user_urn text w =
     create_post env (Create_post access_token user_urn text (ustr ''NONE'') None 30)
       text (ustr ''text'') w"

section \<open>Video processing\<close>

text \<open>The loop over \<open>recipes\<close>: the first truthy \<open>status\<close>; a recipe that is not a dict raises.\<close>

fun first_status :: "json list \<Rightarrow> json" where
  "first_status [] = JStr (ustr ''PROCESSING'')"
| "first_status (recipe # recipes) =
     (case py_get recipe (ustr ''status'') JNull of
        Inr status \<Rightarrow> (if truthy status then status else first_status recipes)
      | Inl e \<Rightarrow> JStr (ustr ''PROCESSING''))"

text \<open>
  \<open>asset_urn.split(':')\<close> is inside the \<open>try\<close>: an asset reference that is not a str
  gives \<open>PROCESSING\<close> without a request. Iterating over \<open>recipes\<close> that is not a list
  either raises or, on a str or a dict, yields strs on which \<open>get\<close> raises.
\<close>

definition check_video_status :: "env \<Rightarrow> pystr \<Rightarrow> json \<Rightarrow> world \<Rightarrow> json \<times> world" where
  "check_video_status env access_token asset_urn w =
     (case asset_urn of
        JStr s \<Rightarrow>
          (case http env (Get_asset access_token (last (split_on 58 s))) w of
             (Response code txt js, w') \<Rightarrow>
               (if code = 200 then
                  (case js of
                     Inr data \<Rightarrow>
                       (case py_get data (ustr ''recipes'') (JArr []) of
                          Inr (JArr recipes) \<Rightarrow> (first_status recipes, w')
                        | _ \<Rightarrow> (JStr (ustr ''PROCESSING''), w'))
                   | Inl e \<Rightarrow> (JStr (ustr ''PROCESSING''), w'))
                else (JStr (ustr ''PROCESSING''), w'))
           | (Raises k e, w') \<Rightarrow> (JStr (ustr ''PROCESSING''), w'))
      | _ \<Rightarrow> (JStr (ustr ''PROCESSING''), w))"

text \<open>
  The \<open>while\<close> loop of \<open>wait_for_video_processing\<close>. The clock is in milliseconds and
  \<open>max_wait\<close> in seconds. Every round that goes on sleeps three seconds, so the loop ends.
\<close>

function wait_loop :: "env \<Rightarrow> pystr \<Rightarrow> json \<Rightarrow> nat \<Rightarrow> nat \<Rightarrow> world \<Rightarrow> bool \<times> world" where
  "wait_loop env access_token asset_urn start_time max_wait w =
     (if now w - start_time < 1000 * max_wait then
        (let sw = check_video_status env access_token asset_urn w;
             status = fst sw;
             w1 = snd sw;
             elapsed = (now w1 - start_time) div 1000
         in if status = JStr (ustr ''AVAILABLE'') then
              (True, emit (Placeholder Success ''Video processed successfully!'' []) w1)
            else if status = JStr (ustr ''ERROR'') then
              (False, emit (Placeholder Error ''Video processing failed'' []) w1)
            else
              wait_loop env access_token asset_urn start_time max_wait
                (sleep 3 (emit (Placeholder Info ''Processing video... ({elapsed}s)''
                                  [Num (of_nat elapsed)]) w1)))
      else (True, emit (Placeholder Warning ''Processing taking long, posting anyway...'' []) w))"
  by pat_completeness auto
termination
proof (relation "measure (\<lambda>(env, access_token, asset_urn, start_time, max_wait, w).
                   start_time + 1000 * max_wait - now w)")
  show "wf (measure (\<lambda>(env, access_token, asset_urn, start_time, max_wait, w).
                   start_time + 1000 * max_wait - now w))"
    by simp
next
  fix env :: env and access_token :: pystr and asset_urn :: json
    and start_time max_wait :: nat and w :: world and sw status w1 elapsed
  assume running: "now w - start_time < 1000 * max_wait"
    and sw: "sw = check_video_status env access_token asset_urn w"
    and w1: "w1 = snd sw"
  have "now w \<le> now (snd (check_video_status env access_token asset_urn w))"
    by (simp add: check_video_status_def http_def Let_def
             split: json.split http_result.split sum.split prod.split)
  then have "now w < now (sleep 3 (emit (Placeholder Info ''Processing video... ({elapsed}s)''
                                  [Num (of_nat elapsed)]) w1))"
    by (simp add: sleep_def emit_def sw w1)
  with running
  show "((env, access_token, asset_urn, start_time, max_wait,
          sleep 3 (emit (Placeholder Info ''Processing video... ({elapsed}s)''
                                  [Num (of_nat elapsed)]) w1)),
         (env, access_token, asset_urn, start_time, max_wait, w))
        \<in> measure (\<lambda>(env, access_token, asset_urn, start_time, max_wait, w).
                   start_time + 1000 * max_wait - now w)"
    by simp
qed

declare wait_loop.simps [simp del]

definition wait_for_video_processing :: "env \<Rightarrow> pystr \<Rightarrow> json \<Rightarrow> nat \<Rightarrow> world \<Rightarrow> bool \<times> world" where
  "wait_for_video_processing env access_token asset_urn max_wait w =
     wait_loop env access_token asset_urn (now w) max_wait w"

section \<open>Publishing\<close>

text \<open>
  \<open>result = create_text_only_post(...); status_placeholder.empty(); return result\<close>,
  and the same ending after the other two functions that create a post.
\<close>

definition finish :: "(bool \<times> payload) \<times> world \<Rightarrow> (bool \<times> payload) \<times> world" where
  "finish rw = (fst rw, emit Placeholder_empty (snd rw))"

text \<open>The branch \<open>if media_type == "image"\<close> of \<open>post_to_linkedin_with_media\<close>.\<close>

definition publish_image ::
  "env \<Rightarrow> pystr \<Rightarrow> pystr \<Rightarrow> pystr \<Rightarrow> uploaded_file \<Rightarrow> world \<Rightarrow> (bool \<times> payload) \<times> world" where
  "publish_image env access_token user_urn text media_file w =
     (let reg = register_image_upload env access_token user_urn
                  (emit (Placeholder Info ''Registering image upload...'' []) w);
          upload_url = fst (fst reg);
          asset_urn = snd (fst reg);
          w1 = snd reg
      in if \<not> truthy upload_url then
           finish (create_text_only_post env access_token user_urn text
                     (emit (Placeholder Warning ''Image upload failed, posting text only...'' []) w1))
         else
           (let image_data = file_data media_file;
                up = upload_image_to_linkedin env upload_url image_data access_token
                       (emit (Placeholder Info ''Uploading image...'' []) w1);
                w2 = snd up
            in if \<not> fst up then
                 finish (create_text_only_post env access_token user_urn text
                           (emit (Placeholder Warning ''Image upload failed, posting text only...'' []) w2))
               else
                 finish (create_post_with_image env access_token user_urn text asset_urn
                           (emit (Placeholder Info ''Creating image post...'' []) w2))))"

text \<open>
  The branch \<open>elif media_type == "video"\<close>. The result of
  \<open>wait_for_video_processing\<close> is bound to \<open>processing_success\<close> and not read again.
\<close>

definition publish_video ::
  "env \<Rightarrow> pystr \<Rightarrow> pystr \<Rightarrow> pystr \<Rightarrow> uploaded_file \<Rightarrow> world \<Rightarrow> (bool \<times> payload) \<times> world" where
  "publish_video env access_token user_urn text media_file w =
     (let file_size = length (file_data media_file);
          file_size_mb = (of_nat file_size :: rat) / (1024 * 1024)
      in if file_size > 200 * 1024 * 1024 then
           ((False, Reason (ustr ''Video exceeds 200MB limit'')),
            emit (Placeholder Error ''Video too large (max 200MB)'' []) w)
         else
           (let reg = register_video_upload env access_token user_urn file_size
                        (emit (Placeholder Info ''Registering video upload ({file_size_mb:.1f}MB)...''
                                 [Num file_size_mb]) w);
                upload_url = fst (fst reg);
                asset_urn = snd (fst reg);
                w1 = snd reg
            in if \<not> truthy upload_url then
                 finish (create_text_only_post env access_token user_urn text
                           (emit (Placeholder Warning
                                    ''Video registration failed, posting text only...'' []) w1))
               else
                 (let video_data = file_data media_file;
                      up = upload_video_to_linkedin env upload_url video_data access_token
                             file_size_mb
                             (emit (Placeholder Info
                                      ''Uploading video ({file_size_mb:.1f}MB)... Please wait...''
                                      [Num file_size_mb]) w1);
                      upload_success = fst up;
                      w2 = snd up
                  in if \<not> upload_success then
                       finish (create_text_only_post env access_token user_urn text
                                 (emit (Placeholder Warning
                                          ''Video upload failed, posting text only...'' []) w2))
                     else
                       (let pr = wait_for_video_processing env access_token asset_urn 120
                                   (emit (Placeholder Info
                                            ''Video uploaded! Waiting for LinkedIn to process...''
                                            []) w2);
                            processing_success = fst pr;
                            w3 = snd pr
                        in finish (create_post_with_video env access_token user_urn text asset_urn
                                     (emit (Placeholder Info ''Creating video post...'' []) w3))))))"

text \<open>
  \<open>post_to_linkedin_with_media\<close>. An uploaded file is an object, hence truthy, so
  \<open>not media_file\<close> holds for \<open>None\<close> only; \<open>not media_type\<close> holds for \<open>None\<close> and
  for the empty str.
\<close>

definition post_to_linkedin_with_media ::
  "env \<Rightarrow> pystr \<Rightarrow> pystr \<Rightarrow> uploaded_file option \<Rightarrow> pystr option \<Rightarrow> world
     \<Rightarrow> (bool \<times> payload) \<times> world" where
  "post_to_linkedin_with_media env access_token text media_file media_type w =
     (let conn = check_linkedin_connection env access_token
                   (emit (Placeholder Info ''Checking connection...'' []) (emit Placeholder_new w))
      in if \<not> fst conn then
           ((False, Reason (ustr ''Connection failed. Check internet and token.'')),
            emit (Placeholder Error ''Connection failed'' []) (snd conn))
         else
           (let prof = get_user_profile env access_token
                         (emit (Placeholder Info ''Getting user profile...'' []) (snd conn));
                w1 = snd prof
            in case fst prof of
                 None \<Rightarrow>
                   ((False, Reason (ustr ''Could not get user profile.'')),
                    emit (Placeholder Error ''Could not get profile'' []) w1)
               | Some user_urn \<Rightarrow>
                   (if user_urn = [] then
                      ((False, Reason (ustr ''Could not get user profile.'')),
                       emit (Placeholder Error ''Could not get profile'' []) w1)
                    else
                      (case (media_file, media_type) of
                         (Some file, Some kind) \<Rightarrow>
                           (if kind = [] then
                              finish (create_text_only_post env access_token user_urn text
                                        (emit (Placeholder Info ''Creating text post...'' []) w1))
                            else if kind = ustr ''image'' then
                              publish_image env access_token user_urn text file w1
                            else if kind = ustr ''video'' then
                              publish_video env access_token user_urn text file w1
                            else
                              finish (create_text_only_post env access_token user_urn text w1))
                       | _ \<Rightarrow>
                           finish (create_text_only_post env access_token user_urn text
                                     (emit (Placeholder Info ''Creating text post...'' []) w1))))))"

section \<open>Retrying the language-model call\<close>

text \<open>
  \<open>agent.step(prompt)\<close> either raises (with the text of the exception) or returns a
  response, of which the contents of \<open>msgs\<close> are kept. An agent gives the outcome of its
  n-th call for a prompt.
\<close>

datatype step_outcome = Step_raises pystr | Step_returns "pystr list"

type_synonym agent = "pystr \<Rightarrow> nat \<Rightarrow> step_outcome"

datatype 'a outcome = Raised pystr | Returned 'a

text \<open>
  The body of the \<open>try\<close>: \<open>response.msgs[0].content\<close> raises IndexError on an empty
  list, inside the \<open>try\<close> as well.
\<close>

definition attempt_result :: "step_outcome \<Rightarrow> pystr + pystr" where
  "attempt_result out =
     (case out of
        Step_raises e \<Rightarrow> Inl e
      | Step_returns msgs \<Rightarrow>
          (case msgs of
             [] \<Rightarrow> Inl (ustr ''list index out of range'')
           | content # rest \<Rightarrow> Inr content))"

text \<open>
  The test on \<open>error_msg = str(e).lower()\<close>: it holds \<open>rate\<close> or \<open>limit\<close>.
\<close>

definition rate_limited :: "pystr \<Rightarrow> bool" where
  "rate_limited e =
     (let error_msg = lower e
      in py_in (ustr ''rate'') error_msg \<or> py_in (ustr ''limit'') error_msg)"

text \<open>The loop \<open>for attempt in range(max_retries)\<close>, over the attempts still to make.\<close>

fun retry_loop :: "agent \<Rightarrow> pystr \<Rightarrow> nat \<Rightarrow> nat list \<Rightarrow> world \<Rightarrow> pystr option outcome \<times> world" where
  "retry_loop agent prompt max_retries [] w = (Returned None, w)"
| "retry_loop agent prompt max_retries (attempt # rest) w =
     (case attempt_result (agent prompt attempt) of
        Inr content \<Rightarrow> (Returned (Some content), w)
      | Inl e \<Rightarrow>
          (if rate_limited e \<and> attempt < max_retries - 1 then
             (let wait_time = 2 ^ attempt
              in retry_loop agent prompt max_retries rest
                   (sleep wait_time
                      (emit (St Warning ''Retrying in {wait_time}s...'' [Num (of_nat wait_time)]) w)))
           else (Raised e, w)))"

definition generate_with_retry :: "agent \<Rightarrow> pystr \<Rightarrow> nat \<Rightarrow> world \<Rightarrow> pystr option outcome \<times> world" where
  "generate_with_retry agent prompt max_retries w =
     retry_loop agent prompt max_retries [0..<max_retries] w"

section \<open>The console: choosing media, publishing, deleting\<close>




text \<open>
  \<open>delete_linkedin_post\<close>. On a value that is not a str, \<open>in\<close> or \<open>quote\<close> raise a
  TypeError; on a str with a surrogate, \<open>quote\<close> raises UnicodeEncodeError.
\<close>

definition delete_linkedin_post :: "env \<Rightarrow> pystr \<Rightarrow> json \<Rightarrow> world \<Rightarrow> (bool \<times> pystr) \<times> world" where
  "delete_linkedin_post env access_token post_urn w =
     (if access_token = [] \<or> \<not> truthy post_urn then
        ((False, ustr ''Missing token or post URN''), w)
      else
        (case post_urn of
           JStr s \<Rightarrow>
             (case quote s of
                None \<Rightarrow> ((False, ustr ''Error: '' @ exc_text env post_urn), w)
              | Some encoded_urn \<Rightarrow>
                  (let url =
                         (if py_in (ustr ''ugcPost'') s then
                            ustr ''https://api.linkedin.com/v2/ugcPosts/'' @ encoded_urn
                          else if py_in (ustr ''share'') s then
                            ustr ''https://api.linkedin.com/v2/shares/'' @ encoded_urn
                          else ustr ''https://api.linkedin.com/v2/ugcPosts/'' @ encoded_urn)
                   in case http env (Delete_post access_token url) w of
                        (Response code txt js, w') \<Rightarrow>
                          (if code = 200 \<or> code = 204 then
                             ((True, ustr ''Post deleted successfully!''), w')
                           else if code = 404 then
                             ((False, ustr ''Post not found. Check the URN.''), w')
                           else if code = 403 then
                             ((False,
                               ustr ''Permission denied. You can only delete your own posts.''), w')
                           else ((False, ustr ''Delete failed: '' @ str_nat code), w'))
                      | (Raises k e, w') \<Rightarrow> ((False, ustr ''Error: '' @ e), w')))
         | _ \<Rightarrow> ((False, ustr ''Error: '' @ exc_text env post_urn), w)))"

text \<open>
  A click on the Delete button beside an entry of the history. \<open>p['urn'] != post['urn']\<close>
  is taken as the inequality of the two values. That is Python's whenever one of them is
  a str; among values that are not strs Python also equates \<open>True\<close>, \<open>1\<close> and \<open>1.0\<close>,
  and dicts that differ in the order of their keys.
\<close>

definition history_delete_clicked :: "env \<Rightarrow> post_record \<Rightarrow> world \<Rightarrow> world" where
  "history_delete_clicked env post w =
     (if linkedin_token w = [] then w
      else
        (let dw = delete_linkedin_post env (linkedin_token w) (rec_urn post) w;
             success = fst (fst dw);
             msg = snd (fst dw);
             w1 = snd dw
         in if success then
              (emit (St Success ''{msg}'' [Txt msg]) w1)
                \<lparr>post_history := filter (\<lambda>p. rec_urn p \<noteq> rec_urn post) (post_history w1)\<rparr>
            else emit (St Error ''{msg}'' [Txt msg]) w1))"

text \<open>
  \<open>init_session_state\<close>: the defaults of the fields above, in a world where nothing has
  happened yet and the clock reads \<open>t0\<close>.
\<close>

definition init_session_state :: "nat \<Rightarrow> world" where
  "init_session_state t0 =
     \<lparr>trace = [], now = t0, post_history = [], last_post_urn = None, last_post_url = None,
      session_uploaded_media = None, session_media_type = None, linkedin_token = [],
      generated_post = [], post_ready = False, show_success = False\<rparr>"

section \<open>Vocabulary of the properties\<close>

text \<open>
  The post identifier a publish result carries: \<open>result.get('id', '')\<close> of the body
  returned with the flag \<open>True\<close>. A failure carries none.
\<close>

definition post_identifier :: "bool \<times> payload \<Rightarrow> json option" where
  "post_identifier r =
     (case r of
        (True, Body result) \<Rightarrow>
          (case py_get result (ustr ''id'') (JStr []) of
             Inr post_urn \<Rightarrow> Some post_urn
           | Inl e \<Rightarrow> None)
      | _ \<Rightarrow> None)"

text \<open>The identifier a result has made the session record: the one that is truthy.\<close>

definition recorded_identifier :: "bool \<times> payload \<Rightarrow> json list" where
  "recorded_identifier r =
     (case post_identifier r of
        Some post_urn \<Rightarrow> (if truthy post_urn then [post_urn] else [])
      | None \<Rightarrow> [])"

text \<open>
  A session that publishes one post after the other with the same token; each entry is
  the text, the file and the kind of media of one call of \<open>post_to_linkedin_with_media\<close>.
\<close>

fun publish_all ::
  "env \<Rightarrow> pystr \<Rightarrow> (pystr \<times> uploaded_file option \<times> pystr option) list \<Rightarrow> world
     \<Rightarrow> (bool \<times> payload) list \<times> world" where
  "publish_all env access_token [] w = ([], w)"
| "publish_all env access_token ((text, media_file, media_type) # rest) w =
     (let rw = post_to_linkedin_with_media env access_token text media_file media_type w;
          rs = publish_all env access_token rest (snd rw)
      in (fst rw # fst rs, snd rs))"

text \<open>
  Two servers for the examples. Both know the account \<open>abc\<close> and accept every post
  with status 201. The first answers with the identifier of the new post; it also
  registers and takes uploads, reports the processing of every asset as failed, and
  deletes on request. The second answers a new post with an empty JSON object.
\<close>

fun respond_with_id :: "event list \<Rightarrow> request \<Rightarrow> http_result" where
  "respond_with_id tr (Get_userinfo token timeout) =
     Response 200 [] (Inr (JObj [(ustr ''sub'', JStr (ustr ''abc''))]))"
| "respond_with_id tr (Register_upload token recipe owner file_size timeout) =
     Response 200 []
       (Inr (JObj [(ustr ''value'',
                    JObj [(ustr ''uploadMechanism'',
                           JObj [(ustr ''com.linkedin.digitalmedia.uploading.MediaUploadHttpRequest'',
                                  JObj [(ustr ''uploadUrl'', JStr (ustr ''https://upload''))])]),
                          (ustr ''asset'', JStr (ustr ''urn:li:digitalmediaAsset:7''))])]))"
| "respond_with_id tr (Put_upload url content token timeout) = Response 201 [] (Inl [])"
| "respond_with_id tr (Create_post token author text category media timeout) =
     Response 201 [] (Inr (JObj [(ustr ''id'', JStr (ustr ''urn:li:ugcPost:123''))]))"
| "respond_with_id tr (Get_asset token asset_id) =
     Response 200 [] (Inr (JObj [(ustr ''recipes'', JArr [JObj [(ustr ''status'', JStr (ustr ''ERROR''))]])]))"
| "respond_with_id tr (Delete_post token url) = Response 204 [] (Inl (ustr ''no content''))"
| "respond_with_id tr req = Raises Other_exception (ustr ''unreachable'')"

definition env_with_id :: env where
  "env_with_id =
     \<lparr>respond = respond_with_id, latency = (\<lambda>tr req. 100),
      strftime = (\<lambda>t. ustr ''2024-01-01 00:00''), py_str = (\<lambda>v. []), exc_text = (\<lambda>v. [])\<rparr>"

fun respond_without_id :: "event list \<Rightarrow> request \<Rightarrow> http_result" where
  "respond_without_id tr (Get_userinfo token timeout) =
     Response 200 [] (Inr (JObj [(ustr ''sub'', JStr (ustr ''abc''))]))"
| "respond_without_id tr (Create_post token author text category media timeout) =
     Response 201 (ustr ''{}'') (Inr (JObj []))"
| "respond_without_id tr req = Raises Other_exception (ustr ''unreachable'')"

definition env_without_id :: env where
  "env_without_id =
     \<lparr>respond = respond_without_id, latency = (\<lambda>tr req. 100),
      strftime = (\<lambda>t. ustr ''2024-01-01 00:00''), py_str = (\<lambda>v. []), exc_text = (\<lambda>v. [])\<rparr>"

text \<open>
  The requests sent between two states of a run, in order, and the kinds of request the
  properties speak of: the registration of an upload, the transfer of the bytes, the
  creation of a post, and the creation of a post with media.
\<close>

fun requests :: "event list \<Rightarrow> request list" where
  "requests [] = []"
| "requests (Http req res # evs) = req # requests evs"
| "requests (e # evs) = requests evs"

definition calls :: "world \<Rightarrow> world \<Rightarrow> request list" where
  "calls w w' = requests (drop (length (trace w)) (trace w'))"

definition is_registration :: "request \<Rightarrow> bool" where
  "is_registration req = (case req of Register_upload t r ow sz n \<Rightarrow> True | _ \<Rightarrow> False)"

definition is_transfer :: "request \<Rightarrow> bool" where
  "is_transfer req = (case req of Put_upload u d t n \<Rightarrow> True | _ \<Rightarrow> False)"

definition is_create :: "request \<Rightarrow> bool" where
  "is_create req = (case req of Create_post t a x c m n \<Rightarrow> True | _ \<Rightarrow> False)"

definition is_media_post :: "request \<Rightarrow> bool" where
  "is_media_post req = (case req of Create_post t a x c (Some m) n \<Rightarrow> True | _ \<Rightarrow> False)"

text \<open>
  The later state has the trace of the earlier one, followed by events whose requests
  all satisfy \<open>P\<close>.
\<close>

definition extends_with :: "(request \<Rightarrow> bool) \<Rightarrow> world \<Rightarrow> world \<Rightarrow> bool" where
  "extends_with P w w' \<longleftrightarrow> (\<exists>evs. trace w' = trace w @ evs \<and> list_all P (requests evs))"

text \<open>
  The rounds of the polling loop, seen from outside: \<open>poll_state ... i\<close> is the state in
  which round \<open>i\<close> begins when every round before it has polled a status that is neither
  \<open>AVAILABLE\<close> nor \<open>ERROR\<close>, slept three seconds and gone on; \<open>polled_status ... i\<close> is
  the status round \<open>i\<close> polls there; round \<open>i\<close> is \<open>running\<close> when it begins before
  \<open>max_wait\<close> seconds have passed since \<open>start_time\<close>, and the loop \<open>stops\<close> in the
  first round that is not running or polls one of the two final statuses.
\<close>

fun poll_state :: "env \<Rightarrow> pystr \<Rightarrow> json \<Rightarrow> nat \<Rightarrow> world \<Rightarrow> nat \<Rightarrow> world" where
  "poll_state env access_token asset_urn start_time w 0 = w"
| "poll_state env access_token asset_urn start_time w (Suc i) =
     (let w1 = snd (check_video_status env access_token asset_urn
                      (poll_state env access_token asset_urn start_time w i));
          elapsed = (now w1 - start_time) div 1000
      in sleep 3 (emit (Placeholder Info ''Processing video... ({elapsed}s)''
                          [Num (of_nat elapsed)]) w1))"

definition polled_status :: "env \<Rightarrow> pystr \<Rightarrow> json \<Rightarrow> nat \<Rightarrow> world \<Rightarrow> nat \<Rightarrow> json" where
  "polled_status env access_token asset_urn start_time w i =
     fst (check_video_status env access_token asset_urn
            (poll_state env access_token asset_urn start_time w i))"

definition running :: "env \<Rightarrow> pystr \<Rightarrow> json \<Rightarrow> nat \<Rightarrow> nat \<Rightarrow> world \<Rightarrow> nat \<Rightarrow> bool" where
  "running env access_token asset_urn start_time max_wait w i \<longleftrightarrow>
     now (poll_state env access_token asset_urn start_time w i) - start_time < 1000 * max_wait"

definition stops :: "env \<Rightarrow> pystr \<Rightarrow> json \<Rightarrow> nat \<Rightarrow> nat \<Rightarrow> world \<Rightarrow> nat \<Rightarrow> bool" where
  "stops env tok asset start max_wait w i \<longleftrightarrow>
     \<not> running env tok asset start max_wait w i
     \<or> polled_status env tok asset start w i = JStr (ustr ''AVAILABLE'')
     \<or> polled_status env tok asset start w i = JStr (ustr ''ERROR'')"

text \<open>
  A server on which the processing of an asset never ends: it answers every poll,
  after 39 seconds, with \<open>PROCESSING\<close>, and everything else as the first server.
\<close>

fun respond_processing :: "event list \<Rightarrow> request \<Rightarrow> http_result" where
  "respond_processing tr (Get_asset token asset_id) =
     Response 200 []
       (Inr (JObj [(ustr ''recipes'', JArr [JObj [(ustr ''status'', JStr (ustr ''PROCESSING''))]])]))"
| "respond_processing tr req = respond_with_id tr req"

fun latency_processing :: "event list \<Rightarrow> request \<Rightarrow> nat" where
  "latency_processing tr (Get_asset token asset_id) = 39000"
| "latency_processing tr req = 100"

definition env_processing :: env where
  "env_processing =
     \<lparr>respond = respond_processing, latency = latency_processing,
      strftime = (\<lambda>t. ustr ''2024-01-01 00:00''), py_str = (\<lambda>v. []), exc_text = (\<lambda>v. [])\<rparr>"




text \<open>A video of three bytes.\<close>

definition small_video :: uploaded_file where
  "small_video = \<lparr>file_name = ustr ''clip.mp4'', file_data = [0, 1, 2]\<rparr>"

text \<open>Files one byte above the limits of 200 MiB and 10 MiB.\<close>

definition oversize_video :: uploaded_file where
  "oversize_video = \<lparr>file_name = ustr ''clip.mp4'', file_data = replicate 209715201 0\<rparr>"


text \<open>
  A session that is connected, one that also has a post ready to publish, and an entry
  of a history.
\<close>

definition connected_session :: world where
  "connected_session = (init_session_state 0)\<lparr>linkedin_token := ustr ''token''\<rparr>"


definition example_record :: post_record where
  "example_record =
     \<lparr>rec_urn = JStr (ustr ''urn:li:ugcPost:123''),
      rec_url = Some (ustr ''https://www.linkedin.com/feed/update/urn%3Ali%3AugcPost%3A123''),
      rec_text = ustr ''Launch day!'', rec_type = ustr ''text'',
      rec_time = ustr ''2024-01-01 00:00''\<rparr>"

section \<open>Properties of the URL functions\<close>

subsection \<open>UTF-8 and percent-encoding can be read back\<close>

lemma div64_two_bytes: "c < 2048 \<Longrightarrow> (c div 64) * 64 + c mod 64 = (c::nat) \<and> c div 64 < 32"
  by (simp add: div_less_iff_less_mult)

lemma div64_three_bytes:
  assumes a: "c < 65536"
  shows "(c div 4096) * 4096 + ((c div 64) mod 64) * 64 + c mod 64 = (c::nat) \<and> c div 4096 < 16"
proof -
  define q where "q = c div 64"
  define r where "r = c mod 64"
  define q2 where "q2 = q div 64"
  define m where "m = q mod 64"
  have e: "c div 4096 = q2" unfolding q2_def q_def by (simp add: div_mult2_eq[symmetric])
  have 1: "c = q * 64 + r" unfolding q_def r_def by simp
  have 2: "q = q2 * 64 + m" unfolding q2_def m_def by simp
  have 3: "q2 * 4096 + m * 64 + r = c" using 1 2 by simp
  have 4: "q2 < 16" using 3 a by linarith
  show ?thesis using 3 4 unfolding e q_def[symmetric] m_def[symmetric] r_def[symmetric] by simp
qed

lemma div64_four_bytes:
  assumes a: "c < 1114112"
  shows "(c div 262144) * 262144 + ((c div 4096) mod 64) * 4096 + ((c div 64) mod 64) * 64 + c mod 64 = (c::nat) \<and> c div 262144 < 8"
proof -
  define q where "q = c div 64"
  define r where "r = c mod 64"
  define q2 where "q2 = q div 64"
  define m where "m = q mod 64"
  define q3 where "q3 = q2 div 64"
  define m2 where "m2 = q2 mod 64"
  have e: "c div 4096 = q2" unfolding q2_def q_def by (simp add: div_mult2_eq[symmetric])
  have e3: "c div 262144 = q3" unfolding q3_def q2_def q_def by (simp add: div_mult2_eq[symmetric])
  have 1: "c = q * 64 + r" unfolding q_def r_def by simp
  have 2: "q = q2 * 64 + m" unfolding q2_def m_def by simp
  have 22: "q2 = q3 * 64 + m2" unfolding q3_def m2_def by simp
  have 3: "q3 * 262144 + m2 * 4096 + m * 64 + r = c" using 1 2 22 by simp
  have 4: "q3 < 8" using 3 a by linarith
  show ?thesis using 3 4 unfolding e e3 q_def[symmetric] m_def[symmetric] r_def[symmetric] m2_def[symmetric] by simp
qed

lemma utf8_char_decode:
  "utf8_char c = Some bs \<Longrightarrow> utf8_decode (bs @ rest) = map_option ((#) c) (utf8_decode rest)"
  using div64_two_bytes[of c] div64_three_bytes[of c] div64_four_bytes[of c]
  by (auto simp: utf8_char_def is_cont_def split: if_splits)

lemma utf8_char_bytes:
  "utf8_char c = Some bs \<Longrightarrow> \<forall>b\<in>set bs. b < 256"
  using div64_two_bytes[of c] div64_three_bytes[of c] div64_four_bytes[of c]
  by (auto simp: utf8_char_def split: if_splits)

lemma utf8_decode_encode:
  "utf8_encode s = Some bs \<Longrightarrow> utf8_decode bs = Some s"
proof (induction s arbitrary: bs)
  case Nil
  then show ?case by simp
next
  case (Cons c cs)
  then show ?case
    by (auto simp: utf8_char_decode split: option.splits)
qed

lemma utf8_encode_bytes:
  "utf8_encode s = Some bs \<Longrightarrow> \<forall>b\<in>set bs. b < 256"
proof (induction s arbitrary: bs)
  case Nil
  then show ?case by simp
next
  case (Cons c cs)
  then show ?case
    using utf8_char_bytes[of c] by (auto split: option.splits)
qed

lemma hex_val_hex_digit: "d < 16 \<Longrightarrow> hex_val (hex_digit d) = Some d"
  by (auto simp: hex_val_def hex_digit_def)

lemma percent_decode_quote_byte:
  "b < 256 \<Longrightarrow> percent_decode (quote_byte b @ rest) = b # percent_decode rest"
  by (cases rest; cases "tl rest"; cases "tl (tl rest)")
     (auto simp: quote_byte_def hex_val_hex_digit always_safe_def)

lemma percent_decode_quote_from_bytes:
  "\<forall>b\<in>set bs. b < 256 \<Longrightarrow> percent_decode (quote_from_bytes bs) = bs"
  by (induction bs) (simp_all add: quote_from_bytes_def percent_decode_quote_byte)

lemma hex_digit_safe: "d < 16 \<Longrightarrow> always_safe (hex_digit d)"
  by (auto simp: hex_digit_def always_safe_def)

lemma quote_byte_chars:
  "b < 256 \<Longrightarrow> c \<in> set (quote_byte b) \<Longrightarrow> always_safe c \<or> c = 37"
  by (auto simp: quote_byte_def hex_digit_safe div_less_iff_less_mult split: if_splits)

lemma quote_from_bytes_chars:
  "\<forall>b\<in>set bs. b < 256 \<Longrightarrow> \<forall>c\<in>set (quote_from_bytes bs). always_safe c \<or> c = 37"
  by (auto simp: quote_from_bytes_def dest: quote_byte_chars)

lemma split_on_nonempty: "split_on sep s \<noteq> []"
  by (induction s) (auto split: list.splits)

lemma split_on_last_no_sep: "sep \<notin> set (last (split_on sep s))"
  by (induction s) (auto simp: split_on_nonempty split: list.splits)

lemma split_on_no_sep: "sep \<notin> set s \<Longrightarrow> split_on sep s = [s]"
  by (induction s) auto

lemma split_on_sep: "sep \<in> set s \<Longrightarrow> tl (split_on sep s) \<noteq> []"
  by (induction s) (auto simp: split_on_nonempty split: list.splits)

lemma split_on_last_suffix:
  "\<exists>pre. s = pre @ last (split_on sep s) \<and> (pre = [] \<or> last pre = sep)"
proof (induction s)
  case Nil
  then show ?case by simp
next
  case (Cons c cs)
  then obtain pre where pre: "cs = pre @ last (split_on sep cs)" "pre = [] \<or> last pre = sep"
    by blast
  show ?case
  proof (cases "c = sep")
    case True
    then have "c # cs = (c # pre) @ last (split_on sep (c # cs))"
      using pre(1) by (simp add: split_on_nonempty)
    moreover have "last (c # pre) = sep" using True pre(2) by auto
    ultimately show ?thesis by blast
  next
    case False
    obtain p ps where sp: "split_on sep cs = p # ps"
      using split_on_nonempty[of sep cs] by (cases "split_on sep cs") auto
    show ?thesis
    proof (cases "pre = []")
      case True
      then have "cs = last (split_on sep cs)" using pre(1) by simp
      then have "sep \<notin> set cs" using split_on_last_no_sep[of sep cs] by simp
      then have "split_on sep (c # cs) = [c # cs]" using False by (simp add: split_on_no_sep)
      then have "c # cs = [] @ last (split_on sep (c # cs))" by simp
      then show ?thesis by blast
    next
      case nonempty: False
      then have "sep \<in> set cs" using pre by (metis last_in_set Un_iff set_append)
      then have "ps \<noteq> []" using sp split_on_sep[of sep cs] by simp
      then have "last (split_on sep (c # cs)) = last (split_on sep cs)"
        using sp False by simp
      then have "c # cs = (c # pre) @ last (split_on sep (c # cs))"
        using pre(1) by simp
      moreover have "last (c # pre) = sep" using nonempty pre(2) by simp
      ultimately show ?thesis by blast
    qed
  qed
qed

text \<open>
  C9. The feed URL of an identifier is the fixed prefix followed by the percent-encoded
  identifier: the encoded segment holds unreserved characters and \<open>%\<close> only, and
  percent-decoding it and reading the bytes as UTF-8 gives the identifier back. The
  functions take the identifier and nothing else, so equal identifiers give equal URLs.
  An identifier that is empty, or that has no UTF-8 encoding, has no feed URL. The
  activity URL is the fixed activity prefix followed by the part of the identifier after
  its last colon.
\<close>

theorem url_derivation:
  "(ident \<noteq> [] \<and> utf8_encode ident \<noteq> None \<longrightarrow>
      (\<exists>enc. quote ident = Some enc
         \<and> get_linkedin_post_url (JStr ident) = Some (feed_update_prefix @ enc)
         \<and> (\<forall>c\<in>set enc. always_safe c \<or> c = 37)
         \<and> utf8_decode (percent_decode enc) = Some ident))
   \<and> (ident = [] \<or> utf8_encode ident = None \<longrightarrow> get_linkedin_post_url (JStr ident) = None)
   \<and> (ident \<noteq> [] \<longrightarrow>
        get_linkedin_activity_url (JStr ident) = Some (activity_prefix @ last (split_on 58 ident))
        \<and> 58 \<notin> set (last (split_on 58 ident))
        \<and> (\<exists>pre. ident = pre @ last (split_on 58 ident) \<and> (pre = [] \<or> last pre = 58)))"
proof (intro conjI impI)
  assume a: "ident \<noteq> [] \<and> utf8_encode ident \<noteq> None"
  then obtain bs where bs: "utf8_encode ident = Some bs" by blast
  have small: "\<forall>b\<in>set bs. b < 256" using bs by (rule utf8_encode_bytes)
  have "quote ident = Some (quote_from_bytes bs)" by (simp add: quote_def bs)
  moreover have "get_linkedin_post_url (JStr ident) = Some (feed_update_prefix @ quote_from_bytes bs)"
    using a by (simp add: get_linkedin_post_url_def quote_def bs)
  moreover have "\<forall>c\<in>set (quote_from_bytes bs). always_safe c \<or> c = 37"
    using small by (rule quote_from_bytes_chars)
  moreover have "utf8_decode (percent_decode (quote_from_bytes bs)) = Some ident"
    using small bs by (simp add: percent_decode_quote_from_bytes utf8_decode_encode)
  ultimately show "\<exists>enc. quote ident = Some enc
         \<and> get_linkedin_post_url (JStr ident) = Some (feed_update_prefix @ enc)
         \<and> (\<forall>c\<in>set enc. always_safe c \<or> c = 37)
         \<and> utf8_decode (percent_decode enc) = Some ident"
    by blast
next
  assume "ident = [] \<or> utf8_encode ident = None"
  then show "get_linkedin_post_url (JStr ident) = None"
    by (auto simp: get_linkedin_post_url_def quote_def)
next
  assume "ident \<noteq> []"
  then show "get_linkedin_activity_url (JStr ident)
               = Some (activity_prefix @ last (split_on 58 ident))"
    by (simp add: get_linkedin_activity_url_def)
next
  show "58 \<notin> set (last (split_on 58 ident))" by (rule split_on_last_no_sep)
next
  show "\<exists>pre. ident = pre @ last (split_on 58 ident) \<and> (pre = [] \<or> last pre = 58)"
    by (rule split_on_last_suffix)
qed

theorem url_derivation_witness:
  "ustr ''urn:li:ugcPost:123'' \<noteq> [] \<and> utf8_encode (ustr ''urn:li:ugcPost:123'') \<noteq> None
   \<and> (\<exists>enc. get_linkedin_post_url (JStr (ustr ''urn:li:ugcPost:123''))
               = Some (feed_update_prefix @ enc)
          \<and> utf8_decode (percent_decode enc) = Some (ustr ''urn:li:ugcPost:123''))
   \<and> get_linkedin_post_url (JStr (ustr ''urn:li:ugcPost:123''))
       = Some (ustr ''https://www.linkedin.com/feed/update/urn%3Ali%3AugcPost%3A123'')
   \<and> get_linkedin_activity_url (JStr (ustr ''urn:li:ugcPost:123''))
       = Some (ustr ''https://www.linkedin.com/feed/update/urn:li:activity:123'')"
proof -
  have h: "ustr ''urn:li:ugcPost:123'' \<noteq> [] \<and> utf8_encode (ustr ''urn:li:ugcPost:123'') \<noteq> None"
    by (simp add: ustr_def utf8_char_def)
  have u: "get_linkedin_post_url (JStr (ustr ''urn:li:ugcPost:123''))
       = Some (ustr ''https://www.linkedin.com/feed/update/urn%3Ali%3AugcPost%3A123'')"
    by (simp add: get_linkedin_post_url_def quote_def quote_from_bytes_def quote_byte_def
          always_safe_def hex_digit_def feed_update_prefix_def ustr_def utf8_char_def)
  have v: "get_linkedin_activity_url (JStr (ustr ''urn:li:ugcPost:123''))
       = Some (ustr ''https://www.linkedin.com/feed/update/urn:li:activity:123'')"
    by (simp add: get_linkedin_activity_url_def activity_prefix_def ustr_def)
  from url_derivation [of "ustr ''urn:li:ugcPost:123''"] h
  have "\<exists>enc. get_linkedin_post_url (JStr (ustr ''urn:li:ugcPost:123''))
               = Some (feed_update_prefix @ enc)
          \<and> utf8_decode (percent_decode enc) = Some (ustr ''urn:li:ugcPost:123'')"
    by blast
  with h u v show ?thesis by blast
qed

section \<open>Properties of the retry wrapper\<close>

lemma retry_loop_from:
  assumes "k < n" and "a \<le> k"
    and "\<forall>i. a \<le> i \<and> i < k \<longrightarrow> (\<exists>e. attempt_result (agent prompt i) = Inl e \<and> rate_limited e)"
    and "k = n - 1 \<or> (\<forall>e. attempt_result (agent prompt k) = Inl e \<longrightarrow> \<not> rate_limited e)"
  shows "retry_loop agent prompt n [a..<n] w =
     ((case attempt_result (agent prompt k) of
         Inr content \<Rightarrow> Returned (Some content)
       | Inl e \<Rightarrow> Raised e),
      w\<lparr>trace := trace w @ concat (map (\<lambda>i. [St Warning ''Retrying in {wait_time}s...''
                                               [Num (of_nat (2 ^ i))], Slept (2 ^ i)]) [a..<k]),
        now := now w + 1000 * (2 ^ k - 2 ^ a)\<rparr>)"
  using assms
proof (induction "k - a" arbitrary: a w)
  case 0
  then have ak: "a = k" by simp
  have l: "[k..<n] = k # [Suc k..<n]" using 0 by (simp add: upt_conv_Cons)
  show ?case
  proof (cases "attempt_result (agent prompt k)")
    case (Inl e)
    then have "\<not> (rate_limited e \<and> k < n - 1)" using 0(5) by auto
    then show ?thesis using Inl by (auto simp: ak l)
  next
    case (Inr c)
    then show ?thesis by (simp add: ak l)
  qed
next
  case (Suc d)
  then have ak: "a < k" by simp
  then have an: "a < n - 1" using Suc by simp
  have l: "[a..<n] = a # [Suc a..<n]" using ak Suc by (simp add: upt_conv_Cons)
  have l2: "[a..<k] = a # [Suc a..<k]" using ak by (simp add: upt_conv_Cons)
  obtain e where e: "attempt_result (agent prompt a) = Inl e" "rate_limited e"
    using Suc(5) ak by auto
  have pw: "(2::nat) ^ Suc a \<le> 2 ^ k" using ak by (simp add: Suc_leI power_increasing del: power_Suc)
  have IH: "retry_loop agent prompt n [Suc a..<n] w' =
     ((case attempt_result (agent prompt k) of
         Inr content \<Rightarrow> Returned (Some content)
       | Inl e \<Rightarrow> Raised e),
      w'\<lparr>trace := trace w' @ concat (map (\<lambda>i. [St Warning ''Retrying in {wait_time}s...''
                                               [Num (of_nat (2 ^ i))], Slept (2 ^ i)]) [Suc a..<k]),
        now := now w' + 1000 * (2 ^ k - 2 ^ Suc a)\<rparr>)" for w'
    using Suc(1)[of "Suc a" w'] Suc(2-) ak by auto
  show ?case
    using e an pw by (simp add: l l2 IH sleep_def emit_def Let_def)
qed

text \<open>
  C5. Let attempt \<open>k\<close> be the first that does not fail with a rate-limit message before
  the last attempt: every attempt before it raised a failure whose message holds \<open>rate\<close> or
  \<open>limit\<close>, and attempt \<open>k\<close> either is the last one (\<open>k = n - 1\<close>) or does not fail so.
  Then \<open>generate_with_retry\<close> made exactly the attempts \<open>0..k\<close>, slept \<open>2^i\<close> seconds
  after each failed attempt \<open>i < k\<close> and at no other time, and ends with attempt \<open>k\<close>:
  its text if it succeeded, its failure raised to the caller if not. With three attempts
  the sleeps are 1s and 2s at most, and a third rate-limit failure is raised.
\<close>

theorem generate_with_retry_backoff:
  assumes "k < n"
    and "\<forall>i<k. \<exists>e. attempt_result (agent prompt i) = Inl e \<and> rate_limited e"
    and "k = n - 1 \<or> (\<forall>e. attempt_result (agent prompt k) = Inl e \<longrightarrow> \<not> rate_limited e)"
  shows "generate_with_retry agent prompt n w =
     ((case attempt_result (agent prompt k) of
         Inr content \<Rightarrow> Returned (Some content)
       | Inl e \<Rightarrow> Raised e),
      w\<lparr>trace := trace w @ concat (map (\<lambda>i. [St Warning ''Retrying in {wait_time}s...''
                                               [Num (of_nat (2 ^ i))], Slept (2 ^ i)]) [0..<k]),
        now := now w + 1000 * (2 ^ k - 1)\<rparr>)"
  using retry_loop_from [of k n 0 agent prompt w] assms
  by (simp add: generate_with_retry_def)

theorem generate_with_retry_backoff_witness:
  "generate_with_retry
     (\<lambda>p i. if i < 2 then Step_raises (ustr ''Rate limit exceeded'') else Step_returns [ustr ''Hello''])
     (ustr ''topic'') 3 (init_session_state 0)
   = (Returned (Some (ustr ''Hello'')),
      (init_session_state 0)
        \<lparr>trace := [St Warning ''Retrying in {wait_time}s...'' [Num 1], Slept 1,
                   St Warning ''Retrying in {wait_time}s...'' [Num 2], Slept 2],
         now := 3000\<rparr>)
   \<and> generate_with_retry (\<lambda>p i. Step_raises (ustr ''429 Too Many Requests: rate limit''))
     (ustr ''topic'') 3 (init_session_state 0)
   = (Raised (ustr ''429 Too Many Requests: rate limit''),
      (init_session_state 0)
        \<lparr>trace := [St Warning ''Retrying in {wait_time}s...'' [Num 1], Slept 1,
                   St Warning ''Retrying in {wait_time}s...'' [Num 2], Slept 2],
         now := 3000\<rparr>)"
proof -
  have r: "rate_limited (ustr ''Rate limit exceeded'')"
    by (simp add: rate_limited_def lower_def ustr_def)
  have r': "rate_limited (ustr ''429 Too Many Requests: rate limit'')"
    by (simp add: rate_limited_def lower_def ustr_def)
  have up: "[0..<2] = [0, Suc 0]"
    by (simp add: upt_conv_Cons)
  have a: "generate_with_retry
     (\<lambda>p i. if i < 2 then Step_raises (ustr ''Rate limit exceeded'') else Step_returns [ustr ''Hello''])
     (ustr ''topic'') 3 (init_session_state 0)
   = (Returned (Some (ustr ''Hello'')),
      (init_session_state 0)
        \<lparr>trace := [St Warning ''Retrying in {wait_time}s...'' [Num 1], Slept 1,
                   St Warning ''Retrying in {wait_time}s...'' [Num 2], Slept 2],
         now := 3000\<rparr>)"
    using generate_with_retry_backoff [of 2 3
        "\<lambda>p i. if i < 2 then Step_raises (ustr ''Rate limit exceeded'') else Step_returns [ustr ''Hello'']"
        "ustr ''topic''" "init_session_state 0"] r
    by (simp add: attempt_result_def init_session_state_def up)
  have b: "generate_with_retry (\<lambda>p i. Step_raises (ustr ''429 Too Many Requests: rate limit''))
     (ustr ''topic'') 3 (init_session_state 0)
   = (Raised (ustr ''429 Too Many Requests: rate limit''),
      (init_session_state 0)
        \<lparr>trace := [St Warning ''Retrying in {wait_time}s...'' [Num 1], Slept 1,
                   St Warning ''Retrying in {wait_time}s...'' [Num 2], Slept 2],
         now := 3000\<rparr>)"
    using generate_with_retry_backoff [of 2 3
        "\<lambda>p i. Step_raises (ustr ''429 Too Many Requests: rate limit'')"
        "ustr ''topic''" "init_session_state 0"] r'
    by (simp add: attempt_result_def init_session_state_def up)
  from a b show ?thesis by (rule conjI)
qed

section \<open>Properties of publishing\<close>

subsection \<open>Only the creation of a post changes the history\<close>

lemma post_history_emit [simp]: "post_history (emit e w) = post_history w"
  by (simp add: emit_def)

lemma post_history_sleep [simp]: "post_history (sleep s w) = post_history w"
  by (simp add: sleep_def)

lemma post_history_http [simp]: "post_history (snd (http env req w)) = post_history w"
  by (simp add: http_def Let_def)

lemma post_history_check_linkedin_connection [simp]:
  "post_history (snd (check_linkedin_connection env tok w)) = post_history w"
  by (simp add: check_linkedin_connection_def http_def Let_def split: http_result.split)

lemma post_history_get_user_profile [simp]:
  "post_history (snd (get_user_profile env tok w)) = post_history w"
  by (simp add: get_user_profile_def http_def Let_def split: option.split)

lemma post_history_register_image_upload [simp]:
  "post_history (snd (register_image_upload env tok urn w)) = post_history w"
  by (simp add: register_image_upload_def http_def Let_def split: http_result.split sum.split option.split)

lemma post_history_register_video_upload [simp]:
  "post_history (snd (register_video_upload env tok urn sz w)) = post_history w"
  by (simp add: register_video_upload_def http_def Let_def split: http_result.split sum.split option.split)

lemma post_history_upload_image_to_linkedin [simp]:
  "post_history (snd (upload_image_to_linkedin env url d tok w)) = post_history w"
  by (simp add: upload_image_to_linkedin_def http_def Let_def split: http_result.split)

lemma post_history_upload_video_to_linkedin [simp]:
  "post_history (snd (upload_video_to_linkedin env url d tok mb w)) = post_history w"
  by (simp add: upload_video_to_linkedin_def http_def Let_def split: http_result.split exc_kind.split)

lemma post_history_check_video_status [simp]:
  "post_history (snd (check_video_status env tok asset w)) = post_history w"
  by (simp add: check_video_status_def http_def Let_def split: json.split http_result.split sum.split)

lemma post_history_wait_loop [simp]:
  "post_history (snd (wait_loop env tok asset start max_wait w)) = post_history w"
proof (induction env tok asset start max_wait w rule: wait_loop.induct)
  case (1 env tok asset start max_wait w)
  show ?case
    apply (subst wait_loop.simps)
    apply (simp add: Let_def)
    using 1 apply (simp add: Let_def)
    done
qed

lemma post_history_wait_for_video_processing [simp]:
  "post_history (snd (wait_for_video_processing env tok asset max_wait w)) = post_history w"
  by (simp add: wait_for_video_processing_def)


lemma finish_simps [simp]:
  "fst (finish rw) = fst rw" "post_history (snd (finish rw)) = post_history (snd rw)"
  by (simp_all add: finish_def)

lemma publish_image_shape:
  "\<exists>req kind w'. publish_image env tok urn text f w = finish (create_post env req text kind w')
      \<and> post_history w' = post_history w"
proof -
  have I: "\<And>r k v. post_history v = post_history w \<Longrightarrow>
     \<exists>req kind w'. finish (create_post env r text k v) = finish (create_post env req text kind w')
      \<and> post_history w' = post_history w"
    by blast
  show ?thesis
    unfolding publish_image_def Let_def create_text_only_post_def create_post_with_image_def
    by (simp add: I)
qed

lemma publish_video_shape:
  "(\<exists>m w'. publish_video env tok urn text f w = ((False, Reason m), w')
      \<and> post_history w' = post_history w) \<or>
   (\<exists>req kind w'. publish_video env tok urn text f w = finish (create_post env req text kind w')
      \<and> post_history w' = post_history w)"
proof -
  have I: "\<And>r k v. post_history v = post_history w \<Longrightarrow>
     \<exists>req kind w'. finish (create_post env r text k v) = finish (create_post env req text kind w')
      \<and> post_history w' = post_history w"
    by blast
  show ?thesis
    unfolding publish_video_def Let_def create_text_only_post_def create_post_with_video_def
    by (simp add: I)
qed

lemma publish_shape:
  "(\<exists>m w'. post_to_linkedin_with_media env tok text mf mt w = ((False, Reason m), w')
      \<and> post_history w' = post_history w) \<or>
   (\<exists>req kind w'. post_to_linkedin_with_media env tok text mf mt w
        = finish (create_post env req text kind w')
      \<and> post_history w' = post_history w)"
proof -
  have I: "\<And>r k v. post_history v = post_history w \<Longrightarrow>
     \<exists>req kind w'. finish (create_post env r text k v) = finish (create_post env req text kind w')
      \<and> post_history w' = post_history w"
    by blast
  have img: "\<And>urn f v. post_history v = post_history w \<Longrightarrow>
     \<exists>req kind w'. publish_image env tok urn text f v = finish (create_post env req text kind w')
      \<and> post_history w' = post_history w"
    using publish_image_shape by metis
  have vid: "\<And>urn f v. post_history v = post_history w \<Longrightarrow>
     (\<exists>m w'. publish_video env tok urn text f v = ((False, Reason m), w')
      \<and> post_history w' = post_history w) \<or>
     (\<exists>req kind w'. publish_video env tok urn text f v = finish (create_post env req text kind w')
      \<and> post_history w' = post_history w)"
    using publish_video_shape by metis
  show ?thesis
    unfolding post_to_linkedin_with_media_def Let_def create_text_only_post_def
    by (simp add: I img vid split: option.split prod.split)
qed


lemma post_history_record_post:
  "post_history (record_post env post_urn text kind w) =
     post_history w @
       (if truthy post_urn then
          [\<lparr>rec_urn = post_urn, rec_url = get_linkedin_post_url post_urn,
            rec_text = preview text, rec_type = kind, rec_time = strftime env (now w)\<rparr>]
        else [])"
  by (simp add: record_post_def Let_def)

lemma create_post_result:
  "(fst (fst (create_post env req text kind w)) \<longleftrightarrow>
      (\<exists>j. snd (fst (create_post env req text kind w)) = Body j))
   \<and> (\<not> fst (fst (create_post env req text kind w)) \<longleftrightarrow>
      (\<exists>m. snd (fst (create_post env req text kind w)) = Reason m))
   \<and> (fst (fst (create_post env req text kind w)) \<longleftrightarrow>
      post_identifier (fst (create_post env req text kind w)) \<noteq> None)
   \<and> (case post_identifier (fst (create_post env req text kind w)) of
        Some post_urn \<Rightarrow>
          snd (create_post env req text kind w)
            = record_post env post_urn text kind (snd (http env req w))
      | None \<Rightarrow> snd (create_post env req text kind w) = snd (http env req w))"
  by (cases "http env req w")
     (auto simp: create_post_def post_identifier_def split: http_result.split sum.split)

lemma create_post_history:
  "\<exists>entries. post_history (snd (create_post env req text kind w)) = post_history w @ entries
     \<and> (case post_identifier (fst (create_post env req text kind w)) of
          Some post_urn \<Rightarrow>
            (if truthy post_urn then
               \<exists>e. entries = [e] \<and> rec_urn e = post_urn
                 \<and> rec_url e = get_linkedin_post_url post_urn \<and> rec_text e = preview text
             else entries = [])
        | None \<Rightarrow> entries = [])"
  using create_post_result [of env req "text" kind w]
  by (cases "post_identifier (fst (create_post env req text kind w))")
     (auto simp: post_history_record_post)

lemma publish_result:
  "(fst (fst (post_to_linkedin_with_media env tok text mf mt w)) \<longleftrightarrow>
      (\<exists>j. snd (fst (post_to_linkedin_with_media env tok text mf mt w)) = Body j))
   \<and> (\<not> fst (fst (post_to_linkedin_with_media env tok text mf mt w)) \<longleftrightarrow>
      (\<exists>m. snd (fst (post_to_linkedin_with_media env tok text mf mt w)) = Reason m))
   \<and> (fst (fst (post_to_linkedin_with_media env tok text mf mt w)) \<longleftrightarrow>
      post_identifier (fst (post_to_linkedin_with_media env tok text mf mt w)) \<noteq> None)"
  using publish_shape [of env tok "text" mf mt w]
proof (elim disjE exE conjE)
  fix m w'
  assume "post_to_linkedin_with_media env tok text mf mt w = ((False, Reason m), w')"
  then show ?thesis by (simp add: post_identifier_def)
next
  fix req kind w'
  assume "post_to_linkedin_with_media env tok text mf mt w = finish (create_post env req text kind w')"
  then show ?thesis using create_post_result [of env req "text" kind w'] by simp blast
qed

lemma publish_history:
  "\<exists>entries. post_history (snd (post_to_linkedin_with_media env tok text mf mt w))
       = post_history w @ entries
     \<and> (case post_identifier (fst (post_to_linkedin_with_media env tok text mf mt w)) of
          Some post_urn \<Rightarrow>
            (if truthy post_urn then
               \<exists>e. entries = [e] \<and> rec_urn e = post_urn
                 \<and> rec_url e = get_linkedin_post_url post_urn \<and> rec_text e = preview text
             else entries = [])
        | None \<Rightarrow> entries = [])"
  using publish_shape [of env tok "text" mf mt w]
proof (elim disjE exE conjE)
  fix m w'
  assume "post_to_linkedin_with_media env tok text mf mt w = ((False, Reason m), w')"
    and "post_history w' = post_history w"
  then show ?thesis by (simp add: post_identifier_def)
next
  fix req kind w'
  assume "post_to_linkedin_with_media env tok text mf mt w = finish (create_post env req text kind w')"
    and "post_history w' = post_history w"
  then show ?thesis using create_post_history [of env req "text" kind w'] by simp
qed

lemma publish_entries_truthy:
  "\<exists>entries. post_history (snd (post_to_linkedin_with_media env tok text mf mt w))
       = post_history w @ entries
     \<and> map rec_urn entries
         = recorded_identifier (fst (post_to_linkedin_with_media env tok text mf mt w))"
  using publish_history [of env tok "text" mf mt w]
  by (auto simp: recorded_identifier_def split: option.splits if_splits)

lemma publish_all_length:
  "length (fst (publish_all env tok inputs w)) = length inputs"
  by (induction inputs arbitrary: w) (auto simp: Let_def)

lemma publish_all_history:
  "\<exists>entries. post_history (snd (publish_all env tok inputs w)) = post_history w @ entries
     \<and> map rec_urn entries
         = concat (map recorded_identifier (fst (publish_all env tok inputs w)))"
proof (induction inputs arbitrary: w)
  case Nil
  then show ?case by simp
next
  case (Cons inp rest)
  obtain body mf mt where inp: "inp = (body, mf, mt)" by (cases inp) auto
  define rw where "rw = post_to_linkedin_with_media env tok body mf mt w"
  obtain e1 where e1: "post_history (snd rw) = post_history w @ e1"
      "map rec_urn e1 = recorded_identifier (fst rw)"
    using publish_entries_truthy [of env tok body mf mt w] unfolding rw_def by blast
  obtain e2 where e2: "post_history (snd (publish_all env tok rest (snd rw))) = post_history (snd rw) @ e2"
      "map rec_urn e2 = concat (map recorded_identifier (fst (publish_all env tok rest (snd rw))))"
    using Cons.IH [of "snd rw"] by blast
  have "post_history (snd (publish_all env tok (inp # rest) w)) = post_history w @ (e1 @ e2)"
    using e1 e2 by (simp add: inp Let_def rw_def)
  moreover have "map rec_urn (e1 @ e2)
         = concat (map recorded_identifier (fst (publish_all env tok (inp # rest) w)))"
    using e1 e2 by (simp add: inp Let_def rw_def)
  ultimately show ?case by blast
qed

lemma recorded_identifier_length:
  "length (recorded_identifier r) \<le> 1"
  by (simp add: recorded_identifier_def split: option.split)

lemma concat_singletons_length:
  "list_all (\<lambda>r. f r \<noteq> []) rs \<Longrightarrow> (\<And>r. length (f r) \<le> 1) \<Longrightarrow> length (concat (map f rs)) = length rs"
proof (induction rs)
  case Nil
  then show ?case by simp
next
  case (Cons r rs)
  have "length (f r) \<le> 1" by (rule Cons.prems(2))
  moreover have "f r \<noteq> []" using Cons.prems(1) by simp
  ultimately have "length (f r) = 1" by (cases "f r") auto
  then show ?case using Cons by simp
qed

lemma filter_distinct_remove1:
  "distinct (map f xs) \<Longrightarrow> x \<in> set xs \<Longrightarrow> filter (\<lambda>p. f p \<noteq> f x) xs = remove1 x xs"
proof (induction xs)
  case Nil
  then show ?case by simp
next
  case (Cons y ys)
  show ?case
  proof (cases "y = x")
    case True
    then have "f x \<notin> f ` set ys" using Cons.prems(1) by simp
    then have "\<forall>p\<in>set ys. f p \<noteq> f x" by (metis imageI)
    then have "filter (\<lambda>p. f p \<noteq> f x) ys = ys" by simp
    then show ?thesis using True by simp
  next
    case False
    then have "x \<in> set ys" using Cons.prems(2) by simp
    moreover then have "f y \<noteq> f x" using Cons.prems(1) by auto
    ultimately show ?thesis using Cons False by simp
  qed
qed

lemma post_history_delete_linkedin_post [simp]:
  "post_history (snd (delete_linkedin_post env tok urn w)) = post_history w"
  by (simp add: delete_linkedin_post_def http_def Let_def
           split: json.split option.split http_result.split)

lemma history_delete_clicked_history:
  "post_history (history_delete_clicked env post w) =
     (if linkedin_token w \<noteq> []
         \<and> fst (fst (delete_linkedin_post env (linkedin_token w) (rec_urn post) w))
      then filter (\<lambda>p. rec_urn p \<noteq> rec_urn post) (post_history w)
      else post_history w)"
  by (simp add: history_delete_clicked_def Let_def emit_def)

lemma recorded_identifier_truthy:
  "\<forall>u\<in>set (recorded_identifier r). truthy u"
  by (simp add: recorded_identifier_def split: option.split)

subsection \<open>The outcome of a publish\<close>

text \<open>
  C7, as stated, fails: a publish returns the Success branch for every 200 or 201 answer
  whose body is a JSON object, also when the object has no \<open>id\<close>. Here the server
  accepts the post and answers \<open>{}\<close>: the publish succeeds and the identifier it
  extracts, \<open>result.get('id', '')\<close>, is the empty str.
\<close>

theorem publish_success_with_empty_identifier:
  "fst (fst (post_to_linkedin_with_media env_without_id (ustr ''token'') (ustr ''Launch day!'')
               None None (init_session_state 0)))
   \<and> post_identifier (fst (post_to_linkedin_with_media env_without_id (ustr ''token'')
                              (ustr ''Launch day!'') None None (init_session_state 0)))
       = Some (JStr [])
   \<and> \<not> truthy (JStr [])"
  by (simp add: post_to_linkedin_with_media_def check_linkedin_connection_def get_user_profile_def
        profile_id_def py_get_def create_text_only_post_def create_post_def record_post_def
        http_def emit_def finish_def env_without_id_def init_session_state_def Let_def
        post_identifier_def fmt_def ustr_def)

text \<open>
  C7, amended. Every publish returns exactly one of Success (the flag with the decoded
  body) and Failure (no flag, with a reason), and a Success is what carries an extracted
  identifier. The identifier may be empty; what the program guards is the record: the
  publish adds to the history the identifier of its result if that is non-empty and
  nothing otherwise, so every identifier it records is non-empty.
\<close>

theorem publish_outcome:
  "(fst (fst (post_to_linkedin_with_media env tok text mf mt w)) \<longleftrightarrow>
      (\<exists>j. snd (fst (post_to_linkedin_with_media env tok text mf mt w)) = Body j))
   \<and> (\<not> fst (fst (post_to_linkedin_with_media env tok text mf mt w)) \<longleftrightarrow>
      (\<exists>m. snd (fst (post_to_linkedin_with_media env tok text mf mt w)) = Reason m))
   \<and> (fst (fst (post_to_linkedin_with_media env tok text mf mt w)) \<longleftrightarrow>
      post_identifier (fst (post_to_linkedin_with_media env tok text mf mt w)) \<noteq> None)
   \<and> (\<exists>entries. post_history (snd (post_to_linkedin_with_media env tok text mf mt w))
          = post_history w @ entries
        \<and> map rec_urn entries
            = recorded_identifier (fst (post_to_linkedin_with_media env tok text mf mt w))
        \<and> (\<forall>e\<in>set entries. truthy (rec_urn e)))"
proof -
  obtain entries where e:
    "post_history (snd (post_to_linkedin_with_media env tok text mf mt w)) = post_history w @ entries"
    "map rec_urn entries = recorded_identifier (fst (post_to_linkedin_with_media env tok text mf mt w))"
    using publish_entries_truthy [of env tok "text" mf mt w] by blast
  have "\<forall>u\<in>set (map rec_urn entries). truthy u"
    unfolding e(2) by (rule recorded_identifier_truthy)
  then have "\<forall>e\<in>set entries. truthy (rec_urn e)" by simp
  with e publish_result [of env tok "text" mf mt w] show ?thesis by blast
qed

theorem publish_outcome_witness:
  "fst (fst (post_to_linkedin_with_media env_with_id (ustr ''token'') (ustr ''Launch day!'')
               None None (init_session_state 0)))
   \<and> post_identifier (fst (post_to_linkedin_with_media env_with_id (ustr ''token'')
                              (ustr ''Launch day!'') None None (init_session_state 0)))
       = Some (JStr (ustr ''urn:li:ugcPost:123''))
   \<and> (\<exists>entries. post_history (snd (post_to_linkedin_with_media env_with_id (ustr ''token'')
                                       (ustr ''Launch day!'') None None (init_session_state 0)))
          = post_history (init_session_state 0) @ entries
        \<and> map rec_urn entries = [JStr (ustr ''urn:li:ugcPost:123'')]
        \<and> (\<forall>e\<in>set entries. truthy (rec_urn e)))"
proof -
  have r: "fst (post_to_linkedin_with_media env_with_id (ustr ''token'') (ustr ''Launch day!'')
               None None (init_session_state 0))
           = (True, Body (JObj [(ustr ''id'', JStr (ustr ''urn:li:ugcPost:123''))]))"
    by (simp add: post_to_linkedin_with_media_def check_linkedin_connection_def
          get_user_profile_def profile_id_def py_get_def create_text_only_post_def
          create_post_def http_def emit_def finish_def env_with_id_def
          init_session_state_def Let_def fmt_def ustr_def)
  have i: "post_identifier (True, Body (JObj [(ustr ''id'', JStr (ustr ''urn:li:ugcPost:123''))]))
           = Some (JStr (ustr ''urn:li:ugcPost:123''))"
    by (simp add: post_identifier_def py_get_def)
  have c: "recorded_identifier (True, Body (JObj [(ustr ''id'', JStr (ustr ''urn:li:ugcPost:123''))]))
           = [JStr (ustr ''urn:li:ugcPost:123'')]"
    by (simp add: recorded_identifier_def i) (simp add: ustr_def)
  from publish_outcome [of env_with_id "ustr ''token''" "ustr ''Launch day!''" None None
                          "init_session_state 0"]
  show ?thesis unfolding r i c by simp
qed

subsection \<open>The history of a session\<close>

text \<open>
  C6, as stated, fails: one publish that succeeds leaves the history empty when the
  answer holds no identifier, so N successful publishes need not give N entries.
\<close>

theorem successful_publish_without_history_entry:
  "list_all fst (fst (publish_all env_without_id (ustr ''token'')
                        [(ustr ''Launch day!'', None, None)] (init_session_state 0)))
   \<and> length (fst (publish_all env_without_id (ustr ''token'')
                     [(ustr ''Launch day!'', None, None)] (init_session_state 0))) = 1
   \<and> post_history (snd (publish_all env_without_id (ustr ''token'')
                           [(ustr ''Launch day!'', None, None)] (init_session_state 0))) = []"
  by (simp add: post_to_linkedin_with_media_def check_linkedin_connection_def get_user_profile_def
        profile_id_def py_get_def create_text_only_post_def create_post_def record_post_def
        http_def emit_def finish_def env_without_id_def init_session_state_def Let_def
        fmt_def ustr_def)

text \<open>
  C6, amended. A session of publishes only appends to the history: what was there stays
  in front, unchanged, and behind it comes one entry for each publish whose result holds
  a non-empty identifier, in the order of the calls, with that identifier; so N publishes
  that all return a non-empty identifier give exactly N new entries. The Delete button of
  an entry, when the deletion succeeds, keeps the entries whose identifier differs from
  that entry's, in their order, and otherwise leaves the history as it is; where the
  identifiers in the history are distinct this removes exactly the one entry.
\<close>

theorem history_append_only:
  "(\<exists>entries. post_history (snd (publish_all env tok inputs w)) = post_history w @ entries
       \<and> map rec_urn entries
           = concat (map recorded_identifier (fst (publish_all env tok inputs w)))
       \<and> (list_all (\<lambda>r. recorded_identifier r \<noteq> []) (fst (publish_all env tok inputs w))
            \<longrightarrow> length entries = length inputs))
   \<and> post_history (history_delete_clicked env post v) =
       (if linkedin_token v \<noteq> []
           \<and> fst (fst (delete_linkedin_post env (linkedin_token v) (rec_urn post) v))
        then filter (\<lambda>p. rec_urn p \<noteq> rec_urn post) (post_history v)
        else post_history v)
   \<and> (linkedin_token v \<noteq> []
        \<and> fst (fst (delete_linkedin_post env (linkedin_token v) (rec_urn post) v))
        \<and> distinct (map rec_urn (post_history v)) \<and> post \<in> set (post_history v)
       \<longrightarrow> post_history (history_delete_clicked env post v) = remove1 post (post_history v)
           \<and> length (post_history (history_delete_clicked env post v))
               = length (post_history v) - 1)"
proof (intro conjI impI)
  obtain entries where e:
    "post_history (snd (publish_all env tok inputs w)) = post_history w @ entries"
    "map rec_urn entries = concat (map recorded_identifier (fst (publish_all env tok inputs w)))"
    using publish_all_history [of env tok inputs w] by blast
  have "list_all (\<lambda>r. recorded_identifier r \<noteq> []) (fst (publish_all env tok inputs w))
          \<longrightarrow> length entries = length inputs"
  proof
    assume "list_all (\<lambda>r. recorded_identifier r \<noteq> []) (fst (publish_all env tok inputs w))"
    then have "length (concat (map recorded_identifier (fst (publish_all env tok inputs w))))
                 = length (fst (publish_all env tok inputs w))"
      by (rule concat_singletons_length) (rule recorded_identifier_length)
    then have "length (map rec_urn entries) = length inputs"
      by (simp add: e(2) publish_all_length)
    then show "length entries = length inputs" by simp
  qed
  with e show "\<exists>entries. post_history (snd (publish_all env tok inputs w)) = post_history w @ entries
       \<and> map rec_urn entries
           = concat (map recorded_identifier (fst (publish_all env tok inputs w)))
       \<and> (list_all (\<lambda>r. recorded_identifier r \<noteq> []) (fst (publish_all env tok inputs w))
            \<longrightarrow> length entries = length inputs)"
    by blast
next
  show "post_history (history_delete_clicked env post v) =
       (if linkedin_token v \<noteq> []
           \<and> fst (fst (delete_linkedin_post env (linkedin_token v) (rec_urn post) v))
        then filter (\<lambda>p. rec_urn p \<noteq> rec_urn post) (post_history v)
        else post_history v)"
    by (rule history_delete_clicked_history)
next
  assume a: "linkedin_token v \<noteq> []
        \<and> fst (fst (delete_linkedin_post env (linkedin_token v) (rec_urn post) v))
        \<and> distinct (map rec_urn (post_history v)) \<and> post \<in> set (post_history v)"
  then show "post_history (history_delete_clicked env post v) = remove1 post (post_history v)"
    by (simp add: history_delete_clicked_history filter_distinct_remove1)
next
  assume a: "linkedin_token v \<noteq> []
        \<and> fst (fst (delete_linkedin_post env (linkedin_token v) (rec_urn post) v))
        \<and> distinct (map rec_urn (post_history v)) \<and> post \<in> set (post_history v)"
  then have "post_history (history_delete_clicked env post v) = remove1 post (post_history v)"
    by (simp add: history_delete_clicked_history filter_distinct_remove1)
  then show "length (post_history (history_delete_clicked env post v))
               = length (post_history v) - 1"
    using a by (simp add: length_remove1)
qed

theorem history_append_only_witness:
  "list_all (\<lambda>r. recorded_identifier r \<noteq> [])
     (fst (publish_all env_with_id (ustr ''token'')
             [(ustr ''Launch day!'', None, None), (ustr ''Day two'', None, None)]
             connected_session))
   \<and> (\<exists>entries. post_history (snd (publish_all env_with_id (ustr ''token'')
                                      [(ustr ''Launch day!'', None, None), (ustr ''Day two'', None, None)]
                                      connected_session))
          = post_history connected_session @ entries
        \<and> length entries = 2)
   \<and> linkedin_token (connected_session\<lparr>post_history := [example_record]\<rparr>) \<noteq> []
   \<and> fst (fst (delete_linkedin_post env_with_id
                  (linkedin_token (connected_session\<lparr>post_history := [example_record]\<rparr>))
                  (rec_urn example_record)
                  (connected_session\<lparr>post_history := [example_record]\<rparr>)))
   \<and> distinct (map rec_urn (post_history (connected_session\<lparr>post_history := [example_record]\<rparr>)))
   \<and> example_record \<in> set (post_history (connected_session\<lparr>post_history := [example_record]\<rparr>))
   \<and> post_history (history_delete_clicked env_with_id example_record
                      (connected_session\<lparr>post_history := [example_record]\<rparr>)) = []"
proof -
  have rs: "fst (publish_all env_with_id (ustr ''token'')
             [(ustr ''Launch day!'', None, None), (ustr ''Day two'', None, None)]
             connected_session)
        = [(True, Body (JObj [(ustr ''id'', JStr (ustr ''urn:li:ugcPost:123''))])),
           (True, Body (JObj [(ustr ''id'', JStr (ustr ''urn:li:ugcPost:123''))]))]"
    by (simp add: post_to_linkedin_with_media_def check_linkedin_connection_def
          get_user_profile_def profile_id_def py_get_def create_text_only_post_def
          create_post_def http_def emit_def finish_def env_with_id_def
          connected_session_def init_session_state_def Let_def fmt_def ustr_def)
  have c: "recorded_identifier (True, Body (JObj [(ustr ''id'', JStr (ustr ''urn:li:ugcPost:123''))]))
           \<noteq> []"
    by (simp add: recorded_identifier_def post_identifier_def py_get_def) (simp add: ustr_def)
  have h1: "list_all (\<lambda>r. recorded_identifier r \<noteq> [])
     (fst (publish_all env_with_id (ustr ''token'')
             [(ustr ''Launch day!'', None, None), (ustr ''Day two'', None, None)]
             connected_session))"
    unfolding rs using c by simp
  have tok: "linkedin_token (connected_session\<lparr>post_history := [example_record]\<rparr>) = ustr ''token''"
    by (simp add: connected_session_def init_session_state_def)
  have h2: "linkedin_token (connected_session\<lparr>post_history := [example_record]\<rparr>) \<noteq> []"
    unfolding tok by (simp add: ustr_def)
  have h3: "fst (fst (delete_linkedin_post env_with_id
                  (linkedin_token (connected_session\<lparr>post_history := [example_record]\<rparr>))
                  (rec_urn example_record)
                  (connected_session\<lparr>post_history := [example_record]\<rparr>)))"
    unfolding tok
    by (simp add: delete_linkedin_post_def example_record_def quote_def utf8_char_def
          http_def env_with_id_def Let_def ustr_def)
  have h4: "distinct (map rec_urn (post_history (connected_session\<lparr>post_history := [example_record]\<rparr>)))"
    by simp
  have h5: "example_record \<in> set (post_history (connected_session\<lparr>post_history := [example_record]\<rparr>))"
    by simp
  note inst = history_append_only [of env_with_id "ustr ''token''"
         "[(ustr ''Launch day!'', None, None), (ustr ''Day two'', None, None)]"
         connected_session example_record
         "connected_session\<lparr>post_history := [example_record]\<rparr>"]
  from inst h1 obtain entries where e:
    "post_history (snd (publish_all env_with_id (ustr ''token'')
                          [(ustr ''Launch day!'', None, None), (ustr ''Day two'', None, None)]
                          connected_session))
       = post_history connected_session @ entries"
    "length entries
       = length [(ustr ''Launch day!'', None :: uploaded_file option, None :: pystr option),
                 (ustr ''Day two'', None, None)]"
    by blast
  have "length entries = 2" using e(2) by simp
  with e(1) have p1: "\<exists>entries. post_history (snd (publish_all env_with_id (ustr ''token'')
                                      [(ustr ''Launch day!'', None, None), (ustr ''Day two'', None, None)]
                                      connected_session))
          = post_history connected_session @ entries
        \<and> length entries = 2"
    by blast
  from inst h2 h3 h4 h5
  have "post_history (history_delete_clicked env_with_id example_record
                      (connected_session\<lparr>post_history := [example_record]\<rparr>))
        = remove1 example_record (post_history (connected_session\<lparr>post_history := [example_record]\<rparr>))"
    by blast
  then have p2: "post_history (history_delete_clicked env_with_id example_record
                      (connected_session\<lparr>post_history := [example_record]\<rparr>)) = []"
    by simp
  from h1 p1 h2 h3 h4 h5 p2 show ?thesis by blast
qed

section \<open>Properties of the calls a publish makes\<close>

subsection \<open>What each step sends\<close>

lemma requests_append: "requests (xs @ ys) = requests xs @ requests ys"
  by (induction xs rule: requests.induct) auto

lemma extends_refl [simp]: "extends_with P w w"
  by (simp add: extends_with_def)

lemma extends_trans: "extends_with P w w' \<Longrightarrow> extends_with P w' w'' \<Longrightarrow> extends_with P w w''"
  by (auto simp: extends_with_def requests_append)

lemma extends_calls: "extends_with P w w' \<Longrightarrow> list_all P (calls w w')"
  by (auto simp: extends_with_def calls_def)

lemma extends_placeholder [simp]:
  "extends_with P w (emit (Placeholder l m a) w)"
  "extends_with P w (emit Placeholder_new w)"
  "extends_with P w (emit Placeholder_empty w)"
  "extends_with P w (emit (St l m a) w)"
  by (simp_all add: extends_with_def emit_def)

lemma extends_sleep [simp]: "extends_with P w (sleep s w)"
  by (simp add: extends_with_def sleep_def)

lemma extends_http: "P req \<Longrightarrow> extends_with P w (snd (http env req w))"
  by (simp add: extends_with_def http_def Let_def)

lemma extends_step:
  "extends_with P w w' \<Longrightarrow> extends_with P w' w'' \<Longrightarrow> extends_with P w w''"
  by (rule extends_trans)

lemma extends_check_linkedin_connection:
  "P (Get_userinfo tok 5) \<Longrightarrow> extends_with P w (snd (check_linkedin_connection env tok w))"
  using extends_http [of P "Get_userinfo tok 5" w env]
  by (cases "http env (Get_userinfo tok 5) w")
     (auto simp: check_linkedin_connection_def split: http_result.split)

lemma extends_get_user_profile:
  assumes "P (Get_userinfo tok 10)" and "P (Get_me tok)"
  shows "extends_with P w (snd (get_user_profile env tok w))"
proof -
  have 1: "extends_with P w (snd (http env (Get_userinfo tok 10) w))"
    using assms(1) by (rule extends_http)
  have 2: "extends_with P (snd (http env (Get_userinfo tok 10) w))
             (snd (http env (Get_me tok) (snd (http env (Get_userinfo tok 10) w))))"
    using assms(2) by (rule extends_http)
  show ?thesis
    using 1 extends_trans [OF 1 2]
    by (auto simp: get_user_profile_def Let_def split: prod.split option.split)
qed





lemma extends_record_post [simp]:
  "extends_with P w (record_post env u x k w)"
  by (simp add: extends_with_def record_post_def Let_def)



lemma extends_check_video_status:
  "(\<And>a. P (Get_asset tok a)) \<Longrightarrow> extends_with P w (snd (check_video_status env tok asset w))"
proof (cases asset)
  case (JStr s)
  assume p: "\<And>a. P (Get_asset tok a)"
  show ?thesis
    using extends_http [of P "Get_asset tok (last (split_on 58 s))" w env] p
    by (cases "http env (Get_asset tok (last (split_on 58 s))) w")
       (auto simp: check_video_status_def JStr split: http_result.split sum.split json.split)
qed (simp_all add: check_video_status_def)

lemma extends_wait_loop:
  "(\<And>a. P (Get_asset tok a)) \<Longrightarrow> extends_with P w (snd (wait_loop env tok asset start max_wait w))"
proof (induction env tok asset start max_wait w rule: wait_loop.induct)
  case (1 env tok asset start max_wait w)
  define sw where "sw = check_video_status env tok asset w"
  define w2 where "w2 = sleep 3 (emit (Placeholder Info ''Processing video... ({elapsed}s)''
                                  [Num (of_nat ((now (snd sw) - start) div 1000))]) (snd sw))"
  have c: "extends_with P w (snd sw)"
    unfolding sw_def using 1(2) by (rule extends_check_video_status)
  have c2: "extends_with P (snd sw) w2"
    unfolding w2_def
    by (rule extends_trans [of _ _ "emit (Placeholder Info ''Processing video... ({elapsed}s)''
                                  [Num (of_nat ((now (snd sw) - start) div 1000))]) (snd sw)"])
       simp_all
  show ?case
  proof (cases "now w - start < 1000 * max_wait")
    case False
    then show ?thesis by (subst wait_loop.simps) simp
  next
    case True
    show ?thesis
    proof (cases "fst sw = JStr (ustr ''AVAILABLE'') \<or> fst sw = JStr (ustr ''ERROR'')")
      case stop: True
      have "extends_with P (snd sw) (emit (Placeholder Success ''Video processed successfully!'' []) (snd sw))"
           "extends_with P (snd sw) (emit (Placeholder Error ''Video processing failed'' []) (snd sw))"
        by simp_all
      then have "extends_with P w (emit (Placeholder Success ''Video processed successfully!'' []) (snd sw))"
           "extends_with P w (emit (Placeholder Error ''Video processing failed'' []) (snd sw))"
        using c by (blast intro: extends_trans)+
      then show ?thesis
        using stop True by (subst wait_loop.simps) (auto simp: Let_def sw_def)
    next
      case go: False
      have "extends_with P w2 (snd (wait_loop env tok asset start max_wait w2))"
        unfolding w2_def sw_def
        using 1(1) [OF True refl refl refl refl] go 1(2) by (simp add: sw_def)
      then have "extends_with P w (snd (wait_loop env tok asset start max_wait w2))"
        using c c2 by (blast intro: extends_trans)
      then show ?thesis
        using go True by (subst wait_loop.simps) (simp add: Let_def sw_def w2_def)
    qed
  qed
qed

lemma extends_wait_for_video_processing:
  "(\<And>a. P (Get_asset tok a)) \<Longrightarrow>
   extends_with P w (snd (wait_for_video_processing env tok asset max_wait w))"
  unfolding wait_for_video_processing_def by (rule extends_wait_loop)

lemma get_user_profile_nonempty:
  "fst (get_user_profile env tok w) \<noteq> Some []"
  by (simp add: get_user_profile_def Let_def ustr_def split: prod.split option.split)

subsection \<open>The size of a video\<close>

text \<open>
  C2. A publish of a video of more than 200 MiB (\<open>200 * 1024 * 1024\<close> bytes) returns a
  Failure, and the requests it has sent hold no registration of an upload, no transfer
  of bytes and no creation of a post: it has only checked the connection and asked for
  the profile. Where those two steps succeed, the Failure is
  \<open>Video exceeds 200MB limit\<close>.
\<close>

theorem video_size_precondition:
  assumes big: "length (file_data f) > 200 * 1024 * 1024"
  shows "\<not> fst (fst (post_to_linkedin_with_media env tok text (Some f) (Some (ustr ''video'')) w))
    \<and> list_all (\<lambda>req. \<not> is_registration req \<and> \<not> is_transfer req \<and> \<not> is_create req)
         (calls w (snd (post_to_linkedin_with_media env tok text (Some f) (Some (ustr ''video'')) w)))
    \<and> (fst (check_linkedin_connection env tok
               (emit (Placeholder Info ''Checking connection...'' []) (emit Placeholder_new w)))
        \<and> fst (get_user_profile env tok
                 (emit (Placeholder Info ''Getting user profile...'' [])
                    (snd (check_linkedin_connection env tok
                            (emit (Placeholder Info ''Checking connection...'' [])
                               (emit Placeholder_new w)))))) \<noteq> None
       \<longrightarrow> fst (post_to_linkedin_with_media env tok text (Some f) (Some (ustr ''video'')) w)
             = (False, Reason (ustr ''Video exceeds 200MB limit'')))"
proof -
  let ?P = "\<lambda>req. \<not> is_registration req \<and> \<not> is_transfer req \<and> \<not> is_create req"
  define w0 where "w0 = emit (Placeholder Info ''Checking connection...'' []) (emit Placeholder_new w)"
  define conn where "conn = check_linkedin_connection env tok w0"
  define wp where "wp = emit (Placeholder Info ''Getting user profile...'' []) (snd conn)"
  define prof where "prof = get_user_profile env tok wp"
  have e0: "extends_with ?P w w0"
    unfolding w0_def by (rule extends_trans [of _ _ "emit Placeholder_new w"]) simp_all
  have "extends_with ?P w0 (snd conn)"
    unfolding conn_def
    by (rule extends_check_linkedin_connection) (simp add: is_registration_def is_transfer_def is_create_def)
  with e0 have e1: "extends_with ?P w (snd conn)" by (rule extends_trans)
  have "extends_with ?P (snd conn) wp" unfolding wp_def by simp
  with e1 have e2: "extends_with ?P w wp" by (rule extends_trans)
  have "extends_with ?P wp (snd prof)"
    unfolding prof_def
    by (rule extends_get_user_profile) (simp_all add: is_registration_def is_transfer_def is_create_def)
  with e2 have e3: "extends_with ?P w (snd prof)" by (rule extends_trans)
  have ne: "fst prof \<noteq> Some []" unfolding prof_def by (rule get_user_profile_nonempty)
  have vid: "ustr ''video'' \<noteq> [] \<and> ustr ''video'' \<noteq> ustr ''image''" by (simp add: ustr_def)
  have R: "post_to_linkedin_with_media env tok text (Some f) (Some (ustr ''video'')) w =
     (if \<not> fst conn then
        ((False, Reason (ustr ''Connection failed. Check internet and token.'')),
         emit (Placeholder Error ''Connection failed'' []) (snd conn))
      else if fst prof = None then
        ((False, Reason (ustr ''Could not get user profile.'')),
         emit (Placeholder Error ''Could not get profile'' []) (snd prof))
      else
        ((False, Reason (ustr ''Video exceeds 200MB limit'')),
         emit (Placeholder Error ''Video too large (max 200MB)'' []) (snd prof)))"
    using big ne vid
    by (auto simp: post_to_linkedin_with_media_def publish_video_def Let_def
          conn_def [symmetric] w0_def [symmetric] wp_def [symmetric] prof_def [symmetric]
          split: option.split)
  have ex: "extends_with ?P w (snd (post_to_linkedin_with_media env tok text (Some f) (Some (ustr ''video'')) w))"
    unfolding R using e1 e3
    by (auto intro: extends_trans [of _ _ "snd conn"] extends_trans [of _ _ "snd prof"])
  have 1: "\<not> fst (fst (post_to_linkedin_with_media env tok text (Some f) (Some (ustr ''video'')) w))"
    unfolding R by simp
  have 2: "list_all ?P (calls w (snd (post_to_linkedin_with_media env tok text (Some f) (Some (ustr ''video'')) w)))"
    using ex by (rule extends_calls)
  have 3: "fst conn \<and> fst prof \<noteq> None
       \<longrightarrow> fst (post_to_linkedin_with_media env tok text (Some f) (Some (ustr ''video'')) w)
             = (False, Reason (ustr ''Video exceeds 200MB limit''))"
    unfolding R by simp
  from 1 2 3 show ?thesis
    unfolding conn_def prof_def wp_def w0_def by blast
qed

theorem video_size_precondition_witness:
  "length (file_data oversize_video) > 200 * 1024 * 1024
   \<and> fst (post_to_linkedin_with_media env_with_id (ustr ''token'') (ustr ''Launch day!'')
            (Some oversize_video) (Some (ustr ''video'')) (init_session_state 0))
       = (False, Reason (ustr ''Video exceeds 200MB limit''))
   \<and> list_all (\<lambda>req. \<not> is_registration req \<and> \<not> is_transfer req \<and> \<not> is_create req)
        (calls (init_session_state 0)
           (snd (post_to_linkedin_with_media env_with_id (ustr ''token'') (ustr ''Launch day!'')
                   (Some oversize_video) (Some (ustr ''video'')) (init_session_state 0))))"
proof -
  have big: "length (file_data oversize_video) > 200 * 1024 * 1024"
    by (simp add: oversize_video_def)
  have ok: "fst (check_linkedin_connection env_with_id (ustr ''token'')
               (emit (Placeholder Info ''Checking connection...'' [])
                  (emit Placeholder_new (init_session_state 0))))
        \<and> fst (get_user_profile env_with_id (ustr ''token'')
                 (emit (Placeholder Info ''Getting user profile...'' [])
                    (snd (check_linkedin_connection env_with_id (ustr ''token'')
                            (emit (Placeholder Info ''Checking connection...'' [])
                               (emit Placeholder_new (init_session_state 0))))))) \<noteq> None"
    by (simp add: check_linkedin_connection_def get_user_profile_def profile_id_def py_get_def
          http_def emit_def env_with_id_def init_session_state_def Let_def ustr_def)
  from video_size_precondition [OF big, of env_with_id "ustr ''token''" "ustr ''Launch day!''"
                                  "init_session_state 0"] ok big
  show ?thesis by blast
qed

subsection \<open>The size of an image\<close>






section \<open>Properties of the video-processing poll loop\<close>

lemma now_check_video_status:
  "now w \<le> now (snd (check_video_status env tok asset w))"
  by (simp add: check_video_status_def http_def Let_def
           split: json.split http_result.split sum.split prod.split)

lemma now_poll_state_Suc:
  "now (poll_state env tok asset start w (Suc i))
     = now (snd (check_video_status env tok asset (poll_state env tok asset start w i))) + 3000"
  by (simp add: Let_def sleep_def emit_def)

lemma now_poll_state: "now w + 3000 * i \<le> now (poll_state env tok asset start w i)"
proof (induction i)
  case 0
  then show ?case by simp
next
  case (Suc i)
  have "now (poll_state env tok asset start w i)
          \<le> now (snd (check_video_status env tok asset (poll_state env tok asset start w i)))"
    by (rule now_check_video_status)
  with Suc show ?case unfolding now_poll_state_Suc by simp
qed

lemma wait_loop_rounds:
  assumes "\<forall>i<n. running env tok asset start max_wait w i
             \<and> polled_status env tok asset start w i \<noteq> JStr (ustr ''AVAILABLE'')
             \<and> polled_status env tok asset start w i \<noteq> JStr (ustr ''ERROR'')"
  shows "wait_loop env tok asset start max_wait w
           = wait_loop env tok asset start max_wait (poll_state env tok asset start w n)"
  using assms
proof (induction n)
  case 0
  then show ?case by simp
next
  case (Suc n)
  then have IH: "wait_loop env tok asset start max_wait w
           = wait_loop env tok asset start max_wait (poll_state env tok asset start w n)"
    by simp
  have r: "running env tok asset start max_wait w n"
     "polled_status env tok asset start w n \<noteq> JStr (ustr ''AVAILABLE'')"
     "polled_status env tok asset start w n \<noteq> JStr (ustr ''ERROR'')"
    using Suc.prems by simp_all
  have "wait_loop env tok asset start max_wait (poll_state env tok asset start w n)
        = wait_loop env tok asset start max_wait (poll_state env tok asset start w (Suc n))"
    using r
    by (subst wait_loop.simps) (simp add: Let_def running_def polled_status_def)
  with IH show ?case by simp
qed

lemma wait_loop_stop:
  "wait_loop env tok asset start max_wait v =
     (if \<not> now v - start < 1000 * max_wait then
        (True, emit (Placeholder Warning ''Processing taking long, posting anyway...'' []) v)
      else if fst (check_video_status env tok asset v) = JStr (ustr ''AVAILABLE'') then
        (True, emit (Placeholder Success ''Video processed successfully!'' [])
                 (snd (check_video_status env tok asset v)))
      else if fst (check_video_status env tok asset v) = JStr (ustr ''ERROR'') then
        (False, emit (Placeholder Error ''Video processing failed'' [])
                  (snd (check_video_status env tok asset v)))
      else wait_loop env tok asset start max_wait
             (sleep 3 (emit (Placeholder Info ''Processing video... ({elapsed}s)''
                          [Num (of_nat ((now (snd (check_video_status env tok asset v)) - start) div 1000))])
                         (snd (check_video_status env tok asset v)))))"
  by (subst wait_loop.simps) (simp add: Let_def)

lemma stops_by_deadline:
  "stops env tok asset (now w) max_wait w ((max_wait + 2) div 3)"
proof -
  define q where "q = (max_wait + 2) div 3"
  define r where "r = (max_wait + 2) mod 3"
  have "max_wait + 2 = 3 * q + r" unfolding q_def r_def by simp
  moreover have "r < 3" unfolding r_def by simp
  ultimately have "max_wait \<le> 3 * q" by linarith
  then have "1000 * max_wait \<le> 3000 * q" by simp
  then have "1000 * max_wait \<le> 3000 * ((max_wait + 2) div 3)" unfolding q_def .
  also have "\<dots> \<le> now (poll_state env tok asset (now w) w ((max_wait + 2) div 3)) - now w"
    using now_poll_state [of w "(max_wait + 2) div 3" env tok asset "now w"] by simp
  finally show ?thesis by (simp add: stops_def running_def)
qed

lemma first_stop:
  "\<exists>n \<le> (max_wait + 2) div 3.
      stops env tok asset (now w) max_wait w n
      \<and> (\<forall>i<n. \<not> stops env tok asset (now w) max_wait w i)"
proof -
  define n where "n = (LEAST i. stops env tok asset (now w) max_wait w i)"
  have "stops env tok asset (now w) max_wait w n"
    unfolding n_def using stops_by_deadline by (rule LeastI)
  moreover have "n \<le> (max_wait + 2) div 3"
    unfolding n_def using stops_by_deadline by (rule Least_le)
  moreover have "\<forall>i<n. \<not> stops env tok asset (now w) max_wait w i"
    unfolding n_def using not_less_Least by blast
  ultimately show ?thesis by blast
qed


lemma wait_stops:
  "\<exists>n \<le> (max_wait + 2) div 3.
      (\<forall>i<n. running env tok asset (now w) max_wait w i
             \<and> polled_status env tok asset (now w) w i \<noteq> JStr (ustr ''AVAILABLE'')
             \<and> polled_status env tok asset (now w) w i \<noteq> JStr (ustr ''ERROR''))
    \<and> wait_for_video_processing env tok asset max_wait w =
        (if \<not> running env tok asset (now w) max_wait w n then
           (True, emit (Placeholder Warning ''Processing taking long, posting anyway...'' [])
                    (poll_state env tok asset (now w) w n))
         else if polled_status env tok asset (now w) w n = JStr (ustr ''AVAILABLE'') then
           (True, emit (Placeholder Success ''Video processed successfully!'' [])
                    (snd (check_video_status env tok asset (poll_state env tok asset (now w) w n))))
         else
           (False, emit (Placeholder Error ''Video processing failed'' [])
                     (snd (check_video_status env tok asset (poll_state env tok asset (now w) w n)))))
    \<and> (running env tok asset (now w) max_wait w n \<longrightarrow>
          polled_status env tok asset (now w) w n = JStr (ustr ''AVAILABLE'')
          \<or> polled_status env tok asset (now w) w n = JStr (ustr ''ERROR''))"
proof -
  obtain n where n: "n \<le> (max_wait + 2) div 3"
      "stops env tok asset (now w) max_wait w n"
      "\<forall>i<n. \<not> stops env tok asset (now w) max_wait w i"
    using first_stop [of max_wait env tok asset w] by blast
  have go: "\<forall>i<n. running env tok asset (now w) max_wait w i
             \<and> polled_status env tok asset (now w) w i \<noteq> JStr (ustr ''AVAILABLE'')
             \<and> polled_status env tok asset (now w) w i \<noteq> JStr (ustr ''ERROR'')"
    using n(3) by (simp add: stops_def)
  have "wait_for_video_processing env tok asset max_wait w
          = wait_loop env tok asset (now w) max_wait (poll_state env tok asset (now w) w n)"
    unfolding wait_for_video_processing_def using go by (rule wait_loop_rounds)
  also have "\<dots> =
        (if \<not> running env tok asset (now w) max_wait w n then
           (True, emit (Placeholder Warning ''Processing taking long, posting anyway...'' [])
                    (poll_state env tok asset (now w) w n))
         else if polled_status env tok asset (now w) w n = JStr (ustr ''AVAILABLE'') then
           (True, emit (Placeholder Success ''Video processed successfully!'' [])
                    (snd (check_video_status env tok asset (poll_state env tok asset (now w) w n))))
         else
           (False, emit (Placeholder Error ''Video processing failed'' [])
                     (snd (check_video_status env tok asset (poll_state env tok asset (now w) w n)))))"
    using n(2)
    by (subst wait_loop_stop) (auto simp: stops_def running_def polled_status_def)
  finally have res: "wait_for_video_processing env tok asset max_wait w =
        (if \<not> running env tok asset (now w) max_wait w n then
           (True, emit (Placeholder Warning ''Processing taking long, posting anyway...'' [])
                    (poll_state env tok asset (now w) w n))
         else if polled_status env tok asset (now w) w n = JStr (ustr ''AVAILABLE'') then
           (True, emit (Placeholder Success ''Video processed successfully!'' [])
                    (snd (check_video_status env tok asset (poll_state env tok asset (now w) w n))))
         else
           (False, emit (Placeholder Error ''Video processing failed'' [])
                     (snd (check_video_status env tok asset (poll_state env tok asset (now w) w n)))))" .
  have final: "running env tok asset (now w) max_wait w n \<longrightarrow>
          polled_status env tok asset (now w) w n = JStr (ustr ''AVAILABLE'')
          \<or> polled_status env tok asset (now w) w n = JStr (ustr ''ERROR'')"
    using n(2) by (auto simp: stops_def)
  from n(1) go res final show ?thesis by blast
qed

lemma check_video_status_transport_error:
  "respond env (trace v) (Get_asset tok (last (split_on 58 s))) = Raises k e \<Longrightarrow>
   fst (check_video_status env tok (JStr s) v) = JStr (ustr ''PROCESSING'')"
  by (simp add: check_video_status_def http_def Let_def)

lemma check_video_status_not_200:
  "respond env (trace v) (Get_asset tok (last (split_on 58 s))) = Response code txt js \<Longrightarrow>
   code \<noteq> 200 \<Longrightarrow>
   fst (check_video_status env tok (JStr s) v) = JStr (ustr ''PROCESSING'')"
  by (simp add: check_video_status_def http_def Let_def)

lemma polled_status_env_processing:
  "polled_status env_processing tok (JStr s) start w i = JStr (ustr ''PROCESSING'')"
  by (simp add: polled_status_def check_video_status_def py_get_def http_def
        env_processing_def Let_def)

lemma wait_on_env_processing:
  "wait_for_video_processing env_processing (ustr ''token'')
         (JStr (ustr ''urn:li:digitalmediaAsset:7'')) 120 (init_session_state 0)
    = (True,
       (init_session_state 0)
        \<lparr>trace :=
           [Http (Get_asset (ustr ''token'') (ustr ''7''))
              (Response 200 []
                 (Inr (JObj [(ustr ''recipes'',
                              JArr [JObj [(ustr ''status'', JStr (ustr ''PROCESSING''))]])]))),
            Placeholder Info ''Processing video... ({elapsed}s)'' [Num 39],
            Slept 3,
            Http (Get_asset (ustr ''token'') (ustr ''7''))
              (Response 200 []
                 (Inr (JObj [(ustr ''recipes'',
                              JArr [JObj [(ustr ''status'', JStr (ustr ''PROCESSING''))]])]))),
            Placeholder Info ''Processing video... ({elapsed}s)'' [Num 81],
            Slept 3,
            Http (Get_asset (ustr ''token'') (ustr ''7''))
              (Response 200 []
                 (Inr (JObj [(ustr ''recipes'',
                              JArr [JObj [(ustr ''status'', JStr (ustr ''PROCESSING''))]])]))),
            Placeholder Info ''Processing video... ({elapsed}s)'' [Num 123],
            Slept 3,
            Placeholder Warning ''Processing taking long, posting anyway...'' []],
         now := 126000\<rparr>)"
  by (simp add: wait_for_video_processing_def wait_loop.simps check_video_status_def
        py_get_def http_def emit_def sleep_def env_processing_def init_session_state_def
        Let_def ustr_def)

text \<open>
  C3. \<open>wait_for_video_processing\<close> always returns, and within
  \<open>(max_wait + 2) div 3\<close> rounds: there is a round \<open>n\<close> such that every round before it
  began before the deadline and polled a status other than \<open>AVAILABLE\<close> and \<open>ERROR\<close>
  (after which the loop slept three seconds and polled again), and round \<open>n\<close> decides:
  if it begins when \<open>max_wait\<close> seconds or more have passed, the loop stops there with
  the timeout message and returns \<open>True\<close>; otherwise it polls \<open>AVAILABLE\<close> and the loop
  stops at once with the success message and \<open>True\<close>, or it polls \<open>ERROR\<close> and the loop
  stops at once with the failure message and \<open>False\<close>. Each further round begins exactly
  three seconds after the poll before it has returned. A poll that raises, or whose
  answer is not a 200, counts as \<open>PROCESSING\<close>.
\<close>

theorem video_processing_poll_loop:
  "(\<exists>n \<le> (max_wait + 2) div 3.
      (\<forall>i<n. running env tok asset (now w) max_wait w i
             \<and> polled_status env tok asset (now w) w i \<noteq> JStr (ustr ''AVAILABLE'')
             \<and> polled_status env tok asset (now w) w i \<noteq> JStr (ustr ''ERROR''))
    \<and> wait_for_video_processing env tok asset max_wait w =
        (if \<not> running env tok asset (now w) max_wait w n then
           (True, emit (Placeholder Warning ''Processing taking long, posting anyway...'' [])
                    (poll_state env tok asset (now w) w n))
         else if polled_status env tok asset (now w) w n = JStr (ustr ''AVAILABLE'') then
           (True, emit (Placeholder Success ''Video processed successfully!'' [])
                    (snd (check_video_status env tok asset (poll_state env tok asset (now w) w n))))
         else
           (False, emit (Placeholder Error ''Video processing failed'' [])
                     (snd (check_video_status env tok asset (poll_state env tok asset (now w) w n)))))
    \<and> (running env tok asset (now w) max_wait w n \<longrightarrow>
          polled_status env tok asset (now w) w n = JStr (ustr ''AVAILABLE'')
          \<or> polled_status env tok asset (now w) w n = JStr (ustr ''ERROR'')))
   \<and> (\<forall>i. now (poll_state env tok asset (now w) w (Suc i))
            = now (snd (check_video_status env tok asset (poll_state env tok asset (now w) w i)))
              + 3000)
   \<and> (\<forall>v s k e. respond env (trace v) (Get_asset tok (last (split_on 58 s))) = Raises k e
         \<longrightarrow> fst (check_video_status env tok (JStr s) v) = JStr (ustr ''PROCESSING''))
   \<and> (\<forall>v s code txt js.
         respond env (trace v) (Get_asset tok (last (split_on 58 s))) = Response code txt js
         \<and> code \<noteq> 200
         \<longrightarrow> fst (check_video_status env tok (JStr s) v) = JStr (ustr ''PROCESSING''))"
  using wait_stops [of max_wait env tok asset w] now_poll_state_Suc [of env tok asset "now w" w]
    check_video_status_transport_error [of env _ tok] check_video_status_not_200 [of env _ tok]
  by blast

theorem video_processing_poll_loop_witness:
  "(\<exists>n \<le> 40.
      \<not> running env_processing (ustr ''token'') (JStr (ustr ''urn:li:digitalmediaAsset:7''))
           (now (init_session_state 0)) 120 (init_session_state 0) n
      \<and> wait_for_video_processing env_processing (ustr ''token'')
           (JStr (ustr ''urn:li:digitalmediaAsset:7'')) 120 (init_session_state 0)
         = (True, emit (Placeholder Warning ''Processing taking long, posting anyway...'' [])
                    (poll_state env_processing (ustr ''token'')
                       (JStr (ustr ''urn:li:digitalmediaAsset:7''))
                       (now (init_session_state 0)) (init_session_state 0) n)))
   \<and> fst (wait_for_video_processing env_processing (ustr ''token'')
            (JStr (ustr ''urn:li:digitalmediaAsset:7'')) 120 (init_session_state 0))
   \<and> now (snd (wait_for_video_processing env_processing (ustr ''token'')
                  (JStr (ustr ''urn:li:digitalmediaAsset:7'')) 120 (init_session_state 0)))
       = 126000"
proof -
  have never: "polled_status env_processing (ustr ''token'') (JStr (ustr ''urn:li:digitalmediaAsset:7''))
           (now (init_session_state 0)) (init_session_state 0) n \<noteq> JStr (ustr ''AVAILABLE'')
        \<and> polled_status env_processing (ustr ''token'') (JStr (ustr ''urn:li:digitalmediaAsset:7''))
           (now (init_session_state 0)) (init_session_state 0) n \<noteq> JStr (ustr ''ERROR'')" for n
    unfolding polled_status_env_processing by (simp add: ustr_def)
  have b: "(120 + 2) div 3 = (40 :: nat)" by simp
  from video_processing_poll_loop [of 120 env_processing "ustr ''token''"
         "JStr (ustr ''urn:li:digitalmediaAsset:7'')" "init_session_state 0"]
  obtain n where n: "n \<le> (120 + 2) div 3"
    "wait_for_video_processing env_processing (ustr ''token'')
           (JStr (ustr ''urn:li:digitalmediaAsset:7'')) 120 (init_session_state 0) =
        (if \<not> running env_processing (ustr ''token'') (JStr (ustr ''urn:li:digitalmediaAsset:7''))
                 (now (init_session_state 0)) 120 (init_session_state 0) n then
           (True, emit (Placeholder Warning ''Processing taking long, posting anyway...'' [])
                    (poll_state env_processing (ustr ''token'')
                       (JStr (ustr ''urn:li:digitalmediaAsset:7''))
                       (now (init_session_state 0)) (init_session_state 0) n))
         else if polled_status env_processing (ustr ''token'')
                   (JStr (ustr ''urn:li:digitalmediaAsset:7''))
                   (now (init_session_state 0)) (init_session_state 0) n = JStr (ustr ''AVAILABLE'') then
           (True, emit (Placeholder Success ''Video processed successfully!'' [])
                    (snd (check_video_status env_processing (ustr ''token'')
                            (JStr (ustr ''urn:li:digitalmediaAsset:7''))
                            (poll_state env_processing (ustr ''token'')
                               (JStr (ustr ''urn:li:digitalmediaAsset:7''))
                               (now (init_session_state 0)) (init_session_state 0) n))))
         else
           (False, emit (Placeholder Error ''Video processing failed'' [])
                     (snd (check_video_status env_processing (ustr ''token'')
                             (JStr (ustr ''urn:li:digitalmediaAsset:7''))
                             (poll_state env_processing (ustr ''token'')
                                (JStr (ustr ''urn:li:digitalmediaAsset:7''))
                                (now (init_session_state 0)) (init_session_state 0) n)))))"
    "running env_processing (ustr ''token'') (JStr (ustr ''urn:li:digitalmediaAsset:7''))
           (now (init_session_state 0)) 120 (init_session_state 0) n \<longrightarrow>
       polled_status env_processing (ustr ''token'') (JStr (ustr ''urn:li:digitalmediaAsset:7''))
           (now (init_session_state 0)) (init_session_state 0) n = JStr (ustr ''AVAILABLE'')
       \<or> polled_status env_processing (ustr ''token'') (JStr (ustr ''urn:li:digitalmediaAsset:7''))
           (now (init_session_state 0)) (init_session_state 0) n = JStr (ustr ''ERROR'')"
    by blast
  have nr: "\<not> running env_processing (ustr ''token'') (JStr (ustr ''urn:li:digitalmediaAsset:7''))
           (now (init_session_state 0)) 120 (init_session_state 0) n"
    using n(3) never [of n] by blast
  have res: "wait_for_video_processing env_processing (ustr ''token'')
           (JStr (ustr ''urn:li:digitalmediaAsset:7'')) 120 (init_session_state 0)
         = (True, emit (Placeholder Warning ''Processing taking long, posting anyway...'' [])
                    (poll_state env_processing (ustr ''token'')
                       (JStr (ustr ''urn:li:digitalmediaAsset:7''))
                       (now (init_session_state 0)) (init_session_state 0) n))"
    using n(2) nr by simp
  have "n \<le> 40" using n(1) b by simp
  with nr res have 1: "\<exists>n \<le> 40.
      \<not> running env_processing (ustr ''token'') (JStr (ustr ''urn:li:digitalmediaAsset:7''))
           (now (init_session_state 0)) 120 (init_session_state 0) n
      \<and> wait_for_video_processing env_processing (ustr ''token'')
           (JStr (ustr ''urn:li:digitalmediaAsset:7'')) 120 (init_session_state 0)
         = (True, emit (Placeholder Warning ''Processing taking long, posting anyway...'' [])
                    (poll_state env_processing (ustr ''token'')
                       (JStr (ustr ''urn:li:digitalmediaAsset:7''))
                       (now (init_session_state 0)) (init_session_state 0) n))"
    by blast
  have 2: "fst (wait_for_video_processing env_processing (ustr ''token'')
            (JStr (ustr ''urn:li:digitalmediaAsset:7'')) 120 (init_session_state 0))"
    unfolding wait_on_env_processing by simp
  have 3: "now (snd (wait_for_video_processing env_processing (ustr ''token'')
                  (JStr (ustr ''urn:li:digitalmediaAsset:7'')) 120 (init_session_state 0)))
       = 126000"
    unfolding wait_on_env_processing by simp
  from 1 2 3 show ?thesis by blast
qed

section \<open>Properties of the video path of a publish\<close>

lemma publish_video_after_upload:
  assumes conn: "check_linkedin_connection env tok
                   (emit (Placeholder Info ''Checking connection...'' []) (emit Placeholder_new w))
                 = (True, wc)"
    and prof: "get_user_profile env tok (emit (Placeholder Info ''Getting user profile...'' []) wc)
                 = (Some urn, wp)"
    and size: "length (file_data f) \<le> 200 * 1024 * 1024"
    and reg: "register_video_upload env tok urn (length (file_data f))
                (emit (Placeholder Info ''Registering video upload ({file_size_mb:.1f}MB)...''
                         [Num (of_nat (length (file_data f)) / (1024 * 1024))]) wp)
              = ((upload_url, asset_urn), wr)"
    and url: "truthy upload_url"
    and up: "upload_video_to_linkedin env upload_url (file_data f) tok
               (of_nat (length (file_data f)) / (1024 * 1024))
               (emit (Placeholder Info ''Uploading video ({file_size_mb:.1f}MB)... Please wait...''
                        [Num (of_nat (length (file_data f)) / (1024 * 1024))]) wr)
             = (True, wu)"
  shows "post_to_linkedin_with_media env tok body (Some f) (Some (ustr ''video'')) w =
           finish (create_post_with_video env tok urn body asset_urn
                     (emit (Placeholder Info ''Creating video post...'' [])
                        (snd (wait_for_video_processing env tok asset_urn 120
                                (emit (Placeholder Info
                                         ''Video uploaded! Waiting for LinkedIn to process...'' [])
                                   wu)))))"
proof -
  have ne: "urn \<noteq> []"
    using get_user_profile_nonempty [of env tok "emit (Placeholder Info ''Getting user profile...'' []) wc"]
      prof by auto
  have vid: "ustr ''video'' \<noteq> [] \<and> ustr ''video'' \<noteq> ustr ''image''" by (simp add: ustr_def)
  have pv: "publish_video env tok urn body f wp =
           finish (create_post_with_video env tok urn body asset_urn
                     (emit (Placeholder Info ''Creating video post...'' [])
                        (snd (wait_for_video_processing env tok asset_urn 120
                                (emit (Placeholder Info
                                         ''Video uploaded! Waiting for LinkedIn to process...'' [])
                                   wu)))))"
    using size url reg up by (simp add: publish_video_def Let_def)
  show ?thesis
    using ne vid by (simp add: post_to_linkedin_with_media_def Let_def conn prof pv)
qed

text \<open>
  C10. In a publish of a video whose bytes have been transferred, the value
  \<open>wait_for_video_processing\<close> returns (\<open>processing_success\<close> below, \<open>True\<close> or \<open>False\<close>)
  plays no part: whatever it is, the publish goes on to \<open>create_post_with_video\<close> in the
  state the waiting has left, and returns what that returns. The witness is a server
  that reports the processing as failed: the post is created all the same.
\<close>

theorem processing_outcome_not_inspected:
  assumes conn: "check_linkedin_connection env tok
                   (emit (Placeholder Info ''Checking connection...'' []) (emit Placeholder_new w))
                 = (True, wc)"
    and prof: "get_user_profile env tok (emit (Placeholder Info ''Getting user profile...'' []) wc)
                 = (Some urn, wp)"
    and size: "length (file_data f) \<le> 200 * 1024 * 1024"
    and reg: "register_video_upload env tok urn (length (file_data f))
                (emit (Placeholder Info ''Registering video upload ({file_size_mb:.1f}MB)...''
                         [Num (of_nat (length (file_data f)) / (1024 * 1024))]) wp)
              = ((upload_url, asset_urn), wr)"
    and url: "truthy upload_url"
    and up: "upload_video_to_linkedin env upload_url (file_data f) tok
               (of_nat (length (file_data f)) / (1024 * 1024))
               (emit (Placeholder Info ''Uploading video ({file_size_mb:.1f}MB)... Please wait...''
                        [Num (of_nat (length (file_data f)) / (1024 * 1024))]) wr)
             = (True, wu)"
    and proc: "wait_for_video_processing env tok asset_urn 120
                 (emit (Placeholder Info ''Video uploaded! Waiting for LinkedIn to process...'' []) wu)
               = (processing_success, ww)"
  shows "post_to_linkedin_with_media env tok body (Some f) (Some (ustr ''video'')) w =
           finish (create_post_with_video env tok urn body asset_urn
                     (emit (Placeholder Info ''Creating video post...'' []) ww))"
  using publish_video_after_upload [OF conn prof size reg url up, of body] by (simp add: proc)

theorem processing_outcome_not_inspected_witness:
  "fst (fst (post_to_linkedin_with_media env_with_id (ustr ''token'') (ustr ''Launch day!'')
               (Some small_video) (Some (ustr ''video'')) (init_session_state 0)))
   \<and> Placeholder Error ''Video processing failed'' []
        \<in> set (trace (snd (post_to_linkedin_with_media env_with_id (ustr ''token'') (ustr ''Launch day!'')
                              (Some small_video) (Some (ustr ''video'')) (init_session_state 0))))
   \<and> last (calls (init_session_state 0)
              (snd (post_to_linkedin_with_media env_with_id (ustr ''token'') (ustr ''Launch day!'')
                      (Some small_video) (Some (ustr ''video'')) (init_session_state 0))))
       = Create_post (ustr ''token'') (ustr ''urn:li:person:abc'') (ustr ''Launch day!'')
           (ustr ''VIDEO'') (Some (JStr (ustr ''urn:li:digitalmediaAsset:7''))) 60"
proof -
  let ?c = "check_linkedin_connection env_with_id (ustr ''token'')
              (emit (Placeholder Info ''Checking connection...'' [])
                 (emit Placeholder_new (init_session_state 0)))"
  let ?p = "get_user_profile env_with_id (ustr ''token'')
              (emit (Placeholder Info ''Getting user profile...'' []) (snd ?c))"
  let ?r = "register_video_upload env_with_id (ustr ''token'') (ustr ''urn:li:person:abc'')
              (length (file_data small_video))
              (emit (Placeholder Info ''Registering video upload ({file_size_mb:.1f}MB)...''
                       [Num (of_nat (length (file_data small_video)) / (1024 * 1024))]) (snd ?p))"
  let ?u = "upload_video_to_linkedin env_with_id (JStr (ustr ''https://upload'')) (file_data small_video)
              (ustr ''token'') (of_nat (length (file_data small_video)) / (1024 * 1024))
              (emit (Placeholder Info ''Uploading video ({file_size_mb:.1f}MB)... Please wait...''
                       [Num (of_nat (length (file_data small_video)) / (1024 * 1024))]) (snd ?r))"
  let ?v = "emit (Placeholder Info ''Video uploaded! Waiting for LinkedIn to process...'' []) (snd ?u)"
  let ?w = "wait_for_video_processing env_with_id (ustr ''token'')
              (JStr (ustr ''urn:li:digitalmediaAsset:7'')) 120 ?v"
  note ev = check_linkedin_connection_def get_user_profile_def profile_id_def py_get_def
    py_index_def registered_def register_video_upload_def upload_video_to_linkedin_def
    http_def emit_def env_with_id_def init_session_state_def Let_def fmt_def ustr_def small_video_def
  have c: "?c = (True, snd ?c)" by (simp add: ev)
  have p: "?p = (Some (ustr ''urn:li:person:abc''), snd ?p)" by (simp add: ev)
  have size: "length (file_data small_video) \<le> 200 * 1024 * 1024" by (simp add: small_video_def)
  have r: "?r = ((JStr (ustr ''https://upload''), JStr (ustr ''urn:li:digitalmediaAsset:7'')), snd ?r)"
    by (simp add: ev)
  have url: "truthy (JStr (ustr ''https://upload''))" by (simp add: ustr_def)
  have u: "?u = (True, snd ?u)" by (simp add: ev)
  have w: "?w = (False, snd ?w)"
    by (simp add: ev wait_for_video_processing_def wait_loop.simps check_video_status_def)
  note eq = processing_outcome_not_inspected [OF c p size r url u w, of "ustr ''Launch day!''"]
  show ?thesis
    unfolding eq
    by (simp add: ev finish_def create_post_with_video_def create_post_def record_post_def
          wait_for_video_processing_def wait_loop.simps check_video_status_def sleep_def
          calls_def)
qed

text \<open>
  C4. In a publish of a video whose bytes have been transferred, if no poll that begins
  before the 120 seconds are over sees \<open>AVAILABLE\<close> or \<open>ERROR\<close>, then
  \<open>wait_for_video_processing\<close> ends in a round that begins 120 seconds or more after the
  waiting began: it shows the timeout message and returns \<open>True\<close>, and the publish goes
  on to \<open>create_post_with_video\<close> and returns what that returns.
\<close>

theorem soft_timeout_is_not_fatal:
  assumes conn: "check_linkedin_connection env tok
                   (emit (Placeholder Info ''Checking connection...'' []) (emit Placeholder_new w))
                 = (True, wc)"
    and prof: "get_user_profile env tok (emit (Placeholder Info ''Getting user profile...'' []) wc)
                 = (Some urn, wp)"
    and size: "length (file_data f) \<le> 200 * 1024 * 1024"
    and reg: "register_video_upload env tok urn (length (file_data f))
                (emit (Placeholder Info ''Registering video upload ({file_size_mb:.1f}MB)...''
                         [Num (of_nat (length (file_data f)) / (1024 * 1024))]) wp)
              = ((upload_url, asset_urn), wr)"
    and url: "truthy upload_url"
    and up: "upload_video_to_linkedin env upload_url (file_data f) tok
               (of_nat (length (file_data f)) / (1024 * 1024))
               (emit (Placeholder Info ''Uploading video ({file_size_mb:.1f}MB)... Please wait...''
                        [Num (of_nat (length (file_data f)) / (1024 * 1024))]) wr)
             = (True, wu)"
    and wv: "wv = emit (Placeholder Info ''Video uploaded! Waiting for LinkedIn to process...'' []) wu"
    and never: "\<forall>i. running env tok asset_urn (now wv) 120 wv i \<longrightarrow>
                  polled_status env tok asset_urn (now wv) wv i \<noteq> JStr (ustr ''AVAILABLE'')
                  \<and> polled_status env tok asset_urn (now wv) wv i \<noteq> JStr (ustr ''ERROR'')"
  shows "\<exists>n \<le> 40.
           120000 \<le> now (poll_state env tok asset_urn (now wv) wv n) - now wv
         \<and> wait_for_video_processing env tok asset_urn 120 wv
             = (True, emit (Placeholder Warning ''Processing taking long, posting anyway...'' [])
                        (poll_state env tok asset_urn (now wv) wv n))
         \<and> post_to_linkedin_with_media env tok body (Some f) (Some (ustr ''video'')) w
             = finish (create_post_with_video env tok urn body asset_urn
                         (emit (Placeholder Info ''Creating video post...'' [])
                            (emit (Placeholder Warning ''Processing taking long, posting anyway...'' [])
                               (poll_state env tok asset_urn (now wv) wv n))))"
proof -
  obtain n where n: "n \<le> (120 + 2) div 3"
     "wait_for_video_processing env tok asset_urn 120 wv =
        (if \<not> running env tok asset_urn (now wv) 120 wv n then
           (True, emit (Placeholder Warning ''Processing taking long, posting anyway...'' [])
                    (poll_state env tok asset_urn (now wv) wv n))
         else if polled_status env tok asset_urn (now wv) wv n = JStr (ustr ''AVAILABLE'') then
           (True, emit (Placeholder Success ''Video processed successfully!'' [])
                    (snd (check_video_status env tok asset_urn (poll_state env tok asset_urn (now wv) wv n))))
         else
           (False, emit (Placeholder Error ''Video processing failed'' [])
                     (snd (check_video_status env tok asset_urn (poll_state env tok asset_urn (now wv) wv n)))))"
     "running env tok asset_urn (now wv) 120 wv n \<longrightarrow>
          polled_status env tok asset_urn (now wv) wv n = JStr (ustr ''AVAILABLE'')
          \<or> polled_status env tok asset_urn (now wv) wv n = JStr (ustr ''ERROR'')"
    using wait_stops [of 120 env tok asset_urn wv] by blast
  have nr: "\<not> running env tok asset_urn (now wv) 120 wv n"
    using n(3) never by blast
  then have late: "120000 \<le> now (poll_state env tok asset_urn (now wv) wv n) - now wv"
    by (simp add: running_def)
  have res: "wait_for_video_processing env tok asset_urn 120 wv
             = (True, emit (Placeholder Warning ''Processing taking long, posting anyway...'' [])
                        (poll_state env tok asset_urn (now wv) wv n))"
    using n(2) nr by simp
  have pub: "post_to_linkedin_with_media env tok body (Some f) (Some (ustr ''video'')) w
             = finish (create_post_with_video env tok urn body asset_urn
                         (emit (Placeholder Info ''Creating video post...'' [])
                            (emit (Placeholder Warning ''Processing taking long, posting anyway...'' [])
                               (poll_state env tok asset_urn (now wv) wv n))))"
    using publish_video_after_upload [OF conn prof size reg url up, of body] res
    by (simp add: wv)
  have "n \<le> 40" using n(1) by simp
  with late res pub show ?thesis by blast
qed

theorem soft_timeout_is_not_fatal_witness:
  "fst (fst (post_to_linkedin_with_media env_processing (ustr ''token'') (ustr ''Launch day!'')
               (Some small_video) (Some (ustr ''video'')) (init_session_state 0)))
   \<and> Placeholder Warning ''Processing taking long, posting anyway...'' []
        \<in> set (trace (snd (post_to_linkedin_with_media env_processing (ustr ''token'') (ustr ''Launch day!'')
                              (Some small_video) (Some (ustr ''video'')) (init_session_state 0))))
   \<and> last (calls (init_session_state 0)
              (snd (post_to_linkedin_with_media env_processing (ustr ''token'') (ustr ''Launch day!'')
                      (Some small_video) (Some (ustr ''video'')) (init_session_state 0))))
       = Create_post (ustr ''token'') (ustr ''urn:li:person:abc'') (ustr ''Launch day!'')
           (ustr ''VIDEO'') (Some (JStr (ustr ''urn:li:digitalmediaAsset:7''))) 60"
proof -
  let ?c = "check_linkedin_connection env_processing (ustr ''token'')
              (emit (Placeholder Info ''Checking connection...'' [])
                 (emit Placeholder_new (init_session_state 0)))"
  let ?p = "get_user_profile env_processing (ustr ''token'')
              (emit (Placeholder Info ''Getting user profile...'' []) (snd ?c))"
  let ?r = "register_video_upload env_processing (ustr ''token'') (ustr ''urn:li:person:abc'')
              (length (file_data small_video))
              (emit (Placeholder Info ''Registering video upload ({file_size_mb:.1f}MB)...''
                       [Num (of_nat (length (file_data small_video)) / (1024 * 1024))]) (snd ?p))"
  let ?u = "upload_video_to_linkedin env_processing (JStr (ustr ''https://upload'')) (file_data small_video)
              (ustr ''token'') (of_nat (length (file_data small_video)) / (1024 * 1024))
              (emit (Placeholder Info ''Uploading video ({file_size_mb:.1f}MB)... Please wait...''
                       [Num (of_nat (length (file_data small_video)) / (1024 * 1024))]) (snd ?r))"
  let ?v = "emit (Placeholder Info ''Video uploaded! Waiting for LinkedIn to process...'' []) (snd ?u)"
  let ?w = "wait_for_video_processing env_processing (ustr ''token'')
              (JStr (ustr ''urn:li:digitalmediaAsset:7'')) 120 ?v"
  note ev = check_linkedin_connection_def get_user_profile_def profile_id_def py_get_def
    py_index_def registered_def register_video_upload_def upload_video_to_linkedin_def
    http_def emit_def env_processing_def init_session_state_def Let_def fmt_def ustr_def small_video_def
  have c: "?c = (True, snd ?c)" by (simp add: ev)
  have p: "?p = (Some (ustr ''urn:li:person:abc''), snd ?p)" by (simp add: ev)
  have size: "length (file_data small_video) \<le> 200 * 1024 * 1024" by (simp add: small_video_def)
  have r: "?r = ((JStr (ustr ''https://upload''), JStr (ustr ''urn:li:digitalmediaAsset:7'')), snd ?r)"
    by (simp add: ev)
  have url: "truthy (JStr (ustr ''https://upload''))" by (simp add: ustr_def)
  have u: "?u = (True, snd ?u)" by (simp add: ev)
  have never: "\<forall>i. running env_processing (ustr ''token'')
                      (JStr (ustr ''urn:li:digitalmediaAsset:7'')) (now ?v) 120 ?v i \<longrightarrow>
                  polled_status env_processing (ustr ''token'')
                      (JStr (ustr ''urn:li:digitalmediaAsset:7'')) (now ?v) ?v i
                    \<noteq> JStr (ustr ''AVAILABLE'')
                  \<and> polled_status env_processing (ustr ''token'')
                      (JStr (ustr ''urn:li:digitalmediaAsset:7'')) (now ?v) ?v i
                    \<noteq> JStr (ustr ''ERROR'')"
    unfolding polled_status_env_processing by (simp add: ustr_def)
  from soft_timeout_is_not_fatal [OF c p size r url u refl never, of "ustr ''Launch day!''"]
  obtain n where n:
    "?w = (True, emit (Placeholder Warning ''Processing taking long, posting anyway...'' [])
                   (poll_state env_processing (ustr ''token'')
                      (JStr (ustr ''urn:li:digitalmediaAsset:7'')) (now ?v) ?v n))"
    "post_to_linkedin_with_media env_processing (ustr ''token'') (ustr ''Launch day!'')
               (Some small_video) (Some (ustr ''video'')) (init_session_state 0)
       = finish (create_post_with_video env_processing (ustr ''token'') (ustr ''urn:li:person:abc'')
                   (ustr ''Launch day!'') (JStr (ustr ''urn:li:digitalmediaAsset:7''))
                   (emit (Placeholder Info ''Creating video post...'' [])
                      (emit (Placeholder Warning ''Processing taking long, posting anyway...'' [])
                         (poll_state env_processing (ustr ''token'')
                            (JStr (ustr ''urn:li:digitalmediaAsset:7'')) (now ?v) ?v n))))"
    by blast
  have "emit (Placeholder Warning ''Processing taking long, posting anyway...'' [])
          (poll_state env_processing (ustr ''token'')
             (JStr (ustr ''urn:li:digitalmediaAsset:7'')) (now ?v) ?v n) = snd ?w"
    using n(1) by simp
  with n(2) have eq:
    "post_to_linkedin_with_media env_processing (ustr ''token'') (ustr ''Launch day!'')
               (Some small_video) (Some (ustr ''video'')) (init_session_state 0)
       = finish (create_post_with_video env_processing (ustr ''token'') (ustr ''urn:li:person:abc'')
                   (ustr ''Launch day!'') (JStr (ustr ''urn:li:digitalmediaAsset:7''))
                   (emit (Placeholder Info ''Creating video post...'' []) (snd ?w)))"
    by simp
  show ?thesis
    unfolding eq
    by (simp add: ev finish_def create_post_with_video_def create_post_def record_post_def
          wait_for_video_processing_def wait_loop.simps check_video_status_def sleep_def
          calls_def)
qed

section \<open>Properties of the fall-back to a text-only post\<close>














lemma not_media_post [simp]:
  "\<not> is_media_post (Register_upload t r ow sz n)"
  "\<not> is_media_post (Put_upload u d t n)"
  "\<not> is_media_post (Create_post t a x c None n)"
  "\<not> is_media_post (Get_userinfo t n)"
  "\<not> is_media_post (Get_me t)"
  by (simp_all add: is_media_post_def)






end
